theory Spec2Isabelle
  imports Main
begin

section \<open>Strings of the program\<close>

text \<open>
  The TypeScript source works on JavaScript strings, which are sequences of 16-bit code
  units. A string is modelled as a list of characters, one per code unit, over the 8-bit
  alphabet of \<open>char\<close>; the only characters the code inspects are the slash, the backslash
  and the dot, so every operation below is a list operation:
  \<^item> \<^verbatim>\<open>s.substring(n)\<close> for \<open>n \<ge> 0\<close> is \<open>drop n s\<close> (the empty string when \<open>n\<close> is beyond the end),
  \<^item> \<^verbatim>\<open>s.substr(1)\<close> is \<open>drop 1 s\<close>,
  \<^item> \<^verbatim>\<open>s.startsWith(p)\<close> compares the first \<open>length p\<close> characters of \<open>s\<close> with \<open>p\<close>,
  \<^item> \<^verbatim>\<open>s.replace(/\\/g, '/')\<close> rewrites every backslash (code 0x5C) into a slash.
\<close>

definition startsWith :: "string \<Rightarrow> string \<Rightarrow> bool" where
  "startsWith s p = (take (length p) s = p)"

definition backslash :: char where
  "backslash = CHR 0x5C"

definition replace_backslashes :: "string \<Rightarrow> string" where
  "replace_backslashes s = map (\<lambda>c. if c = backslash then CHR ''/'' else c) s"

text \<open>
  A value of type \<^verbatim>\<open>string | undefined\<close> is a \<open>string option\<close>. In a condition
  JavaScript takes \<^verbatim>\<open>undefined\<close> and the empty string as false, every other string as
  true.
\<close>

definition truthy :: "string option \<Rightarrow> bool" where
  "truthy v = (case v of None \<Rightarrow> False | Some s \<Rightarrow> s \<noteq> [])"

section \<open>The path module of the host\<close>

text \<open>
  \<^verbatim>\<open>path.sep\<close>, \<^verbatim>\<open>path.join\<close>, \<^verbatim>\<open>path.basename\<close> and \<^verbatim>\<open>path.extname\<close> belong to
  the Node.js runtime, not to this repository, and they differ between hosts. The program
  is therefore modelled over an arbitrary path module, given as a record of the four
  members it uses (\<^verbatim>\<open>path.join\<close> is only ever called with two arguments).
\<close>

record path_module =
  sep :: char
  join :: "string \<Rightarrow> string \<Rightarrow> string"
  basename :: "string \<Rightarrow> string"
  extname :: "string \<Rightarrow> string"

subsection \<open>The POSIX flavour\<close>

text \<open>
  The path module of a POSIX host, after the behaviour Node.js documents for
  \<^verbatim>\<open>path.posix\<close>. A path is cut at every slash; normalisation drops the empty and the
  \<^verbatim>\<open>.\<close> segments, lets a \<^verbatim>\<open>..\<close> segment remove the segment before it (or keeps it,
  in a relative path, when there is nothing to remove), and keeps a leading and a trailing
  slash.
\<close>

fun split_sep :: "char \<Rightarrow> string \<Rightarrow> string list" where
  "split_sep c [] = [[]]"
| "split_sep c (x # xs) =
     (let r = split_sep c xs in if x = c then [] # r else (x # hd r) # tl r)"

fun join_segs :: "string list \<Rightarrow> string" where
  "join_segs [] = []"
| "join_segs [s] = s"
| "join_segs (s # t # ss) = s @ CHR ''/'' # join_segs (t # ss)"

definition norm_step :: "bool \<Rightarrow> string list \<Rightarrow> string \<Rightarrow> string list" where
  "norm_step allowAboveRoot res seg =
     (if seg = [] \<or> seg = ''.'' then res
      else if seg = ''..'' then
        (if res \<noteq> [] \<and> last res \<noteq> ''..'' then butlast res
         else if allowAboveRoot then res @ [''..''] else res)
      else res @ [seg])"

definition normalizeString :: "bool \<Rightarrow> string \<Rightarrow> string" where
  "normalizeString allowAboveRoot path =
     join_segs (foldl (norm_step allowAboveRoot) [] (split_sep CHR ''/'' path))"

definition posix_normalize :: "string \<Rightarrow> string" where
  "posix_normalize path =
     (if path = [] then ''.''
      else
        let isAbsolute = (hd path = CHR ''/'');
            trailingSeparator = (last path = CHR ''/'');
            p = normalizeString (\<not> isAbsolute) path
        in if p = [] then (if isAbsolute then ''/'' else if trailingSeparator then ''./'' else ''.'')
           else (if isAbsolute then ''/'' else []) @ p @ (if trailingSeparator then ''/'' else []))"

definition posix_join :: "string \<Rightarrow> string \<Rightarrow> string" where
  "posix_join a b =
     (let joined = (if a = [] then b else if b = [] then a else a @ ''/'' @ b)
      in if joined = [] then ''.'' else posix_normalize joined)"

definition posix_basename :: "string \<Rightarrow> string" where
  "posix_basename path =
     rev (takeWhile (\<lambda>c. c \<noteq> CHR ''/'') (dropWhile (\<lambda>c. c = CHR ''/'') (rev path)))"

definition posix_extname :: "string \<Rightarrow> string" where
  "posix_extname path =
     (let b = posix_basename path;
          ext = rev (takeWhile (\<lambda>c. c \<noteq> CHR ''.'') (rev b));
          pre = take (length b - Suc (length ext)) b
      in if CHR ''.'' \<in> set b \<and> pre \<noteq> [] \<and> b \<noteq> ''..'' then CHR ''.'' # ext else [])"

definition posix :: path_module where
  "posix = \<lparr> sep = CHR ''/'', join = posix_join, basename = posix_basename,
             extname = posix_extname \<rparr>"

section \<open>Task parameters\<close>

text \<open>
  The fields of \<^verbatim>\<open>Parameters\<close> that the two uploaders read. The typed uploader's
  parameters add the optional content type. The constructor, which builds the endpoint
  host and the storage client from the region and the credentials, is not modelled: the
  client is a parameter of the uploaders below.
\<close>

record Parameters =
  digitalRegion :: string
  digitalBucket :: string
  digitalAcl :: string
  digitalSourceFolder :: string
  digitalTargetFolder :: "string option"
  digitalFlattenFolders :: bool

record Upload_Parameters = Parameters +
  digitalContentType :: "string option"

section \<open>Key normalisation\<close>

text \<open>
  Both uploaders start \<^verbatim>\<open>normalizeKeyPath\<close> with the same four lines, which leave a value
  in the local variable \<^verbatim>\<open>relativePath\<close>: the file path without its first
  \<^verbatim>\<open>digitalSourceFolder.length\<close> characters, and without one leading \<^verbatim>\<open>path.sep\<close> if
  it then starts with one.
\<close>

definition relativePath_of :: "path_module \<Rightarrow> string \<Rightarrow> string \<Rightarrow> string" where
  "relativePath_of P file sourceFolder =
     (let relativePath = drop (length sourceFolder) file
      in if startsWith relativePath [sep P] then drop 1 relativePath else relativePath)"

text \<open>\<^verbatim>\<open>Spaces.normalizeKeyPath(file, params)\<close>, the minimal uploader's.\<close>

definition Spaces_normalizeKeyPath ::
  "path_module \<Rightarrow> string \<Rightarrow> 'a Parameters_scheme \<Rightarrow> string" where
  "Spaces_normalizeKeyPath P file params =
     (let relativePath = relativePath_of P file (digitalSourceFolder params);
          targetPath =
            (if digitalFlattenFolders params then
               (let flatFileName = basename P file
                in if truthy (digitalTargetFolder params)
                   then join P (the (digitalTargetFolder params)) flatFileName
                   else flatFileName)
             else
               (if truthy (digitalTargetFolder params)
                then join P (the (digitalTargetFolder params)) relativePath
                else relativePath))
      in replace_backslashes targetPath)"

text \<open>\<^verbatim>\<open>Upload.normalizeKeyPath(file)\<close>, the typed uploader's, reading \<^verbatim>\<open>this.params\<close>.\<close>

definition Upload_normalizeKeyPath ::
  "path_module \<Rightarrow> Upload_Parameters \<Rightarrow> string \<Rightarrow> string" where
  "Upload_normalizeKeyPath P this_params file =
     (let relativePath = relativePath_of P file (digitalSourceFolder this_params);
          targetPath =
            (if digitalFlattenFolders this_params then
               (let flatFileName = basename P file
                in if truthy (digitalTargetFolder this_params)
                   then join P (the (digitalTargetFolder this_params)) flatFileName
                   else flatFileName)
             else
               (if truthy (digitalTargetFolder this_params)
                then join P (the (digitalTargetFolder this_params)) relativePath
                else relativePath))
      in replace_backslashes targetPath)"

section \<open>Content type\<close>

text \<open>
  \<^verbatim>\<open>Upload.knownMimeTypes\<close> is a JavaScript \<^verbatim>\<open>Map\<close> built from a list of pairs: when a
  key occurs twice the later pair wins, so \<^verbatim>\<open>get\<close> is a lookup from the end of the list.
\<close>

definition Map_get :: "(string \<times> string) list \<Rightarrow> string \<Rightarrow> string option" where
  "Map_get entries k = map_of (rev entries) k"

definition knownMimeTypes :: "(string \<times> string) list" where
  "knownMimeTypes = [
    (''.ai'', ''application/postscript''),
    (''.aif'', ''audio/x-aiff''),
    (''.aifc'', ''audio/x-aiff''),
    (''.aiff'', ''audio/x-aiff''),
    (''.asc'', ''text/plain''),
    (''.au'', ''audio/basic''),
    (''.avi'', ''video/x-msvideo''),
    (''.bcpio'', ''application/x-bcpio''),
    (''.bin'', ''application/octet-stream''),
    (''.c'', ''text/plain''),
    (''.cc'', ''text/plain''),
    (''.ccad'', ''application/clariscad''),
    (''.cdf'', ''application/x-netcdf''),
    (''.class'', ''application/octet-stream''),
    (''.cpio'', ''application/x-cpio''),
    (''.cpp'', ''text/plain''),
    (''.cpt'', ''application/mac-compactpro''),
    (''.cs'', ''text/plain''),
    (''.csh'', ''application/x-csh''),
    (''.css'', ''text/css''),
    (''.dcr'', ''application/x-director''),
    (''.dir'', ''application/x-director''),
    (''.dms'', ''application/octet-stream''),
    (''.doc'', ''application/msword''),
    (''.docx'', ''application/vnd.openxmlformats-officedocument.wordprocessingml.document''),
    (''.dot'', ''application/msword''),
    (''.drw'', ''application/drafting''),
    (''.dvi'', ''application/x-dvi''),
    (''.dwg'', ''application/acad''),
    (''.dxf'', ''application/dxf''),
    (''.dxr'', ''application/x-director''),
    (''.eps'', ''application/postscript''),
    (''.etx'', ''text/x-setext''),
    (''.exe'', ''application/octet-stream''),
    (''.ez'', ''application/andrew-inset''),
    (''.f'', ''text/plain''),
    (''.f90'', ''text/plain''),
    (''.fli'', ''video/x-fli''),
    (''.gif'', ''image/gif''),
    (''.gtar'', ''application/x-gtar''),
    (''.gz'', ''application/x-gzip''),
    (''.h'', ''text/plain''),
    (''.hdf'', ''application/x-hdf''),
    (''.hh'', ''text/plain''),
    (''.hqx'', ''application/mac-binhex40''),
    (''.htm'', ''text/html''),
    (''.html'', ''text/html''),
    (''.ice'', ''x-conference/x-cooltalk''),
    (''.ief'', ''image/ief''),
    (''.iges'', ''model/iges''),
    (''.igs'', ''model/iges''),
    (''.ips'', ''application/x-ipscript''),
    (''.ipx'', ''application/x-ipix''),
    (''.jpe'', ''image/jpeg''),
    (''.jpeg'', ''image/jpeg''),
    (''.jpg'', ''image/jpeg''),
    (''.js'', ''application/x-javascript''),
    (''.kar'', ''audio/midi''),
    (''.latex'', ''application/x-latex''),
    (''.lha'', ''application/octet-stream''),
    (''.lsp'', ''application/x-lisp''),
    (''.lzh'', ''application/octet-stream''),
    (''.m'', ''text/plain''),
    (''.m3u8'', ''application/x-mpegURL''),
    (''.man'', ''application/x-troff-man''),
    (''.me'', ''application/x-troff-me''),
    (''.mesh'', ''model/mesh''),
    (''.mid'', ''audio/midi''),
    (''.midi'', ''audio/midi''),
    (''.mime'', ''www/mime''),
    (''.mov'', ''video/quicktime''),
    (''.movie'', ''video/x-sgi-movie''),
    (''.mp2'', ''audio/mpeg''),
    (''.mp3'', ''audio/mpeg''),
    (''.mpe'', ''video/mpeg''),
    (''.mpeg'', ''video/mpeg''),
    (''.mpg'', ''video/mpeg''),
    (''.mpga'', ''audio/mpeg''),
    (''.ms'', ''application/x-troff-ms''),
    (''.msi'', ''application/x-ole-storage''),
    (''.msh'', ''model/mesh''),
    (''.nc'', ''application/x-netcdf''),
    (''.oda'', ''application/oda''),
    (''.pbm'', ''image/x-portable-bitmap''),
    (''.pdb'', ''chemical/x-pdb''),
    (''.pdf'', ''application/pdf''),
    (''.pgm'', ''image/x-portable-graymap''),
    (''.pgn'', ''application/x-chess-pgn''),
    (''.png'', ''image/png''),
    (''.pnm'', ''image/x-portable-anymap''),
    (''.pot'', ''application/mspowerpoint''),
    (''.ppm'', ''image/x-portable-pixmap''),
    (''.pps'', ''application/mspowerpoint''),
    (''.ppt'', ''application/mspowerpoint''),
    (''.pptx'', ''application/vnd.openxmlformats-officedocument.presentationml.presentation''),
    (''.ppz'', ''application/mspowerpoint''),
    (''.pre'', ''application/x-freelance''),
    (''.prt'', ''application/pro_eng''),
    (''.ps'', ''application/postscript''),
    (''.qt'', ''video/quicktime''),
    (''.ra'', ''audio/x-realaudio''),
    (''.ram'', ''audio/x-pn-realaudio''),
    (''.ras'', ''image/cmu-raster''),
    (''.rgb'', ''image/x-rgb''),
    (''.rm'', ''audio/x-pn-realaudio''),
    (''.roff'', ''application/x-troff''),
    (''.rpm'', ''audio/x-pn-realaudio-plugin''),
    (''.rtf'', ''text/rtf''),
    (''.rtx'', ''text/richtext''),
    (''.scm'', ''application/x-lotusscreencam''),
    (''.set'', ''application/set''),
    (''.sgm'', ''text/sgml''),
    (''.sgml'', ''text/sgml''),
    (''.sh'', ''application/x-sh''),
    (''.shar'', ''application/x-shar''),
    (''.silo'', ''model/mesh''),
    (''.sit'', ''application/x-stuffit''),
    (''.skd'', ''application/x-koan''),
    (''.skm'', ''application/x-koan''),
    (''.skp'', ''application/x-koan''),
    (''.skt'', ''application/x-koan''),
    (''.smi'', ''application/smil''),
    (''.smil'', ''application/smil''),
    (''.snd'', ''audio/basic''),
    (''.sol'', ''application/solids''),
    (''.spl'', ''application/x-futuresplash''),
    (''.src'', ''application/x-wais-source''),
    (''.step'', ''application/STEP''),
    (''.stl'', ''application/SLA''),
    (''.stp'', ''application/STEP''),
    (''.sv4cpio'', ''application/x-sv4cpio''),
    (''.sv4crc'', ''application/x-sv4crc''),
    (''.svg'', ''image/svg+xml''),
    (''.swf'', ''application/x-shockwave-flash''),
    (''.t'', ''application/x-troff''),
    (''.tar'', ''application/x-tar''),
    (''.tcl'', ''application/x-tcl''),
    (''.tex'', ''application/x-tex''),
    (''.tif'', ''image/tiff''),
    (''.tiff'', ''image/tiff''),
    (''.tr'', ''application/x-troff''),
    (''.ts'', ''video/MP2T''),
    (''.tsi'', ''audio/TSP-audio''),
    (''.tsp'', ''application/dsptype''),
    (''.tsv'', ''text/tab-separated-values''),
    (''.txt'', ''text/plain''),
    (''.unv'', ''application/i-deas''),
    (''.ustar'', ''application/x-ustar''),
    (''.vcd'', ''application/x-cdlink''),
    (''.vda'', ''application/vda''),
    (''.vrml'', ''model/vrml''),
    (''.wav'', ''audio/x-wav''),
    (''.wrl'', ''model/vrml''),
    (''.xbm'', ''image/x-xbitmap''),
    (''.xlc'', ''application/vnd.ms-excel''),
    (''.xll'', ''application/vnd.ms-excel''),
    (''.xlm'', ''application/vnd.ms-excel''),
    (''.xls'', ''application/vnd.ms-excel''),
    (''.xlsx'', ''application/vnd.openxmlformats-officedocument.spreadsheetml.sheet''),
    (''.xlw'', ''application/vnd.ms-excel''),
    (''.xml'', ''text/xml''),
    (''.xpm'', ''image/x-xpixmap''),
    (''.xwd'', ''image/x-xwindowdump''),
    (''.xyz'', ''chemical/x-pdb''),
    (''.zip'', ''application/zip''),
    (''.m4v'', ''video/x-m4v''),
    (''.webm'', ''video/webm''),
    (''.ogv'', ''video/ogv''),
    (''.xap'', ''application/x-silverlight-app''),
    (''.mp4'', ''video/mp4''),
    (''.wmv'', ''video/x-ms-wmv'')]"

text \<open>
  The content type of a file, as \<^verbatim>\<open>Upload.init\<close> computes it inside its loop from
  \<^verbatim>\<open>this.params.digitalContentType\<close> and the file path.
\<close>

definition resolveContentType :: "path_module \<Rightarrow> string \<Rightarrow> string option \<Rightarrow> string" where
  "resolveContentType P file override =
     (if truthy override then the override
      else
        (let contentType = Map_get knownMimeTypes (extname P file)
         in if \<not> truthy contentType then ''application/octet-stream'' else the contentType))"

section \<open>The uploaders\<close>

text \<open>
  What an uploader does to the outside is write lines to the console and hand requests to
  the storage client. Both are recorded in a trace. A console line is kept as its message
  key with the arguments given to it; the progress line keeps the two byte counts of the
  callback (its text is a formatting of them).
\<close>

datatype 'e event =
    UploadingFiles string string string
  | FileNotFound string
  | UploadingFile string string "string option"
  | FileUploadProgress nat nat
  | FileUploadCompleted string string
  | FileUploadFailed 'e
  | TaskCompleted

record PutObjectRequest =
  Bucket :: string
  ACL :: string
  Key :: string
  Body :: string
  ContentType :: "string option"

record 'e trace =
  console :: "'e event list"
  uploads :: "PutObjectRequest list"

text \<open>
  The storage client is outside the repository. It is taken as a function that gives, for
  a request, the progress callbacks \<open>(loaded, total)\<close> it makes and how its promise
  settles: \<open>None\<close> when it resolves, \<open>Some err\<close> when it rejects with \<open>err\<close>. Every
  request is taken to settle, as the client promises. File discovery (\<^verbatim>\<open>findFiles\<close>) is
  a parameter as well.
\<close>

type_synonym 'e s3_upload = "PutObjectRequest \<Rightarrow> (nat \<times> nat) list \<times> 'e option"

definition emit :: "'e event \<Rightarrow> 'e trace \<Rightarrow> 'e trace" where
  "emit ev t = t\<lparr>console := console t @ [ev]\<rparr>"

definition send :: "'e s3_upload \<Rightarrow> PutObjectRequest \<Rightarrow> 'e trace \<Rightarrow> 'e option \<times> 'e trace" where
  "send s3 req t =
     (let t1 = t\<lparr>uploads := uploads t @ [req]\<rparr>;
          t2 = foldl (\<lambda>t' (loaded, total). emit (FileUploadProgress loaded total) t')
                 t1 (fst (s3 req))
      in (snd (s3 req), t2))"

definition target_or_root :: "string option \<Rightarrow> string" where
  "target_or_root targetFolder =
     (if truthy targetFolder then the targetFolder else ''root'')"

subsection \<open>\<^verbatim>\<open>Spaces.upload\<close>\<close>

definition Spaces_request :: "path_module \<Rightarrow> Parameters \<Rightarrow> string \<Rightarrow> PutObjectRequest" where
  "Spaces_request P params file =
     \<lparr> Bucket = digitalBucket params, ACL = digitalAcl params,
       Key = Spaces_normalizeKeyPath P file params, Body = file, ContentType = None \<rparr>"

fun Spaces_upload_files ::
  "path_module \<Rightarrow> 'e s3_upload \<Rightarrow> Parameters \<Rightarrow> string list \<Rightarrow> 'e trace
     \<Rightarrow> ('e + unit) \<times> 'e trace" where
  "Spaces_upload_files P s3 params [] t = (Inr (), t)"
| "Spaces_upload_files P s3 params (file # files) t =
     (let targetPath = Spaces_normalizeKeyPath P file params;
          t1 = emit (UploadingFile file targetPath None) t;
          r = send s3 (Spaces_request P params file) t1
      in case fst r of
           None \<Rightarrow>
             Spaces_upload_files P s3 params files
               (emit (FileUploadCompleted file targetPath) (snd r))
         | Some err \<Rightarrow> (Inl err, emit (FileUploadFailed err) (snd r)))"

definition Spaces_upload ::
  "path_module \<Rightarrow> (Parameters \<Rightarrow> string list) \<Rightarrow> 'e s3_upload \<Rightarrow> Parameters \<Rightarrow> 'e trace
     \<Rightarrow> ('e + unit) \<times> 'e trace" where
  "Spaces_upload P findFiles s3 params t =
     (let t0 = emit (UploadingFiles (digitalSourceFolder params)
                       (target_or_root (digitalTargetFolder params)) (digitalBucket params)) t;
          files = findFiles params
      in Spaces_upload_files P s3 params files t0)"

subsection \<open>\<^verbatim>\<open>Upload.init\<close>\<close>

definition Upload_request :: "path_module \<Rightarrow> Upload_Parameters \<Rightarrow> string \<Rightarrow> PutObjectRequest" where
  "Upload_request P this_params file =
     \<lparr> Bucket = digitalBucket this_params, ACL = digitalAcl this_params,
       Key = Upload_normalizeKeyPath P this_params file, Body = file,
       ContentType = Some (resolveContentType P file (digitalContentType this_params)) \<rparr>"

fun Upload_init_files ::
  "path_module \<Rightarrow> 'e s3_upload \<Rightarrow> Upload_Parameters \<Rightarrow> string list \<Rightarrow> 'e trace
     \<Rightarrow> ('e + unit) \<times> 'e trace" where
  "Upload_init_files P s3 this_params [] t = (Inr (), t)"
| "Upload_init_files P s3 this_params (file # files) t =
     (let targetPath = Upload_normalizeKeyPath P this_params file;
          contentType = resolveContentType P file (digitalContentType this_params);
          t1 = emit (UploadingFile file targetPath (Some contentType)) t;
          r = send s3 (Upload_request P this_params file) t1
      in case fst r of
           None \<Rightarrow>
             Upload_init_files P s3 this_params files
               (emit (FileUploadCompleted file targetPath) (snd r))
         | Some err \<Rightarrow> (Inl err, emit (FileUploadFailed err) (snd r)))"

definition Upload_init ::
  "path_module \<Rightarrow> (Upload_Parameters \<Rightarrow> string list) \<Rightarrow> 'e s3_upload \<Rightarrow> Upload_Parameters
     \<Rightarrow> 'e trace \<Rightarrow> ('e + unit) \<times> 'e trace" where
  "Upload_init P findFiles s3 this_params t =
     (let t0 = emit (UploadingFiles (digitalSourceFolder this_params)
                       (target_or_root (digitalTargetFolder this_params))
                       (digitalBucket this_params)) t;
          files = findFiles this_params
      in if files = [] then (Inr (), emit (FileNotFound (digitalSourceFolder this_params)) t0)
         else
           (case Upload_init_files P s3 this_params files t0 of
              (Inr u, t') \<Rightarrow> (Inr u, emit TaskCompleted t')
            | (Inl err, t') \<Rightarrow> (Inl err, t')))"

section \<open>Example inputs and auxiliary predicates\<close>

text \<open>The configuration of the specification's end-to-end example, for each uploader.\<close>

definition example_params :: Parameters where
  "example_params =
     \<lparr> digitalRegion = ''nyc3'', digitalBucket = ''artifacts'', digitalAcl = ''private'',
       digitalSourceFolder = ''/build/out'', digitalTargetFolder = Some ''release'',
       digitalFlattenFolders = False \<rparr>"

definition example_this_params :: Upload_Parameters where
  "example_this_params =
     \<lparr> digitalRegion = ''ams3'', digitalBucket = ''site'', digitalAcl = ''public-read'',
       digitalSourceFolder = ''/build/out'', digitalTargetFolder = Some ''release'',
       digitalFlattenFolders = False, digitalContentType = Some ''text/plain'' \<rparr>"

subsection \<open>Reading a trace\<close>

text \<open>Which console lines are per-file completion lines and which are failure lines.\<close>

fun is_completed :: "'e event \<Rightarrow> bool" where
  "is_completed (FileUploadCompleted file key) = True"
| "is_completed ev = False"

fun is_failed :: "'e event \<Rightarrow> bool" where
  "is_failed (FileUploadFailed err) = True"
| "is_failed ev = False"

text \<open>
  The file path and object key arguments a console line is printed with. The failure line
  is \<^verbatim>\<open>console.error(tl.loc('FileUploadFailed'), err)\<close>: the message without arguments,
  followed by the error.
\<close>

fun path_args :: "'e event \<Rightarrow> string list" where
  "path_args (UploadingFiles src tgt bucket) = [src, tgt]"
| "path_args (FileNotFound src) = [src]"
| "path_args (UploadingFile file key ct) = [file, key]"
| "path_args (FileUploadCompleted file key) = [file, key]"
| "path_args ev = []"

text \<open>The console lines of one upload that resolves, and of one that rejects.\<close>

definition progress_events :: "(nat \<times> nat) list \<Rightarrow> 'e event list" where
  "progress_events ps = map (\<lambda>(loaded, total). FileUploadProgress loaded total) ps"

definition ok_events :: "string \<Rightarrow> string \<Rightarrow> string option \<Rightarrow> (nat \<times> nat) list \<Rightarrow> 'e event list" where
  "ok_events file key ct ps =
     UploadingFile file key ct # progress_events ps @ [FileUploadCompleted file key]"

definition fail_events ::
  "string \<Rightarrow> string \<Rightarrow> string option \<Rightarrow> (nat \<times> nat) list \<Rightarrow> 'e \<Rightarrow> 'e event list" where
  "fail_events file key ct ps err =
     UploadingFile file key ct # progress_events ps @ [FileUploadFailed err]"

definition Spaces_ok_events :: "path_module \<Rightarrow> 'e s3_upload \<Rightarrow> Parameters \<Rightarrow> string \<Rightarrow> 'e event list" where
  "Spaces_ok_events P s3 params file =
     ok_events file (Spaces_normalizeKeyPath P file params) None
       (fst (s3 (Spaces_request P params file)))"

definition Upload_ok_events ::
  "path_module \<Rightarrow> 'e s3_upload \<Rightarrow> Upload_Parameters \<Rightarrow> string \<Rightarrow> 'e event list" where
  "Upload_ok_events P s3 this_params file =
     ok_events file (Upload_normalizeKeyPath P this_params file)
       (Some (resolveContentType P file (digitalContentType this_params)))
       (fst (s3 (Upload_request P this_params file)))"

definition resolves :: "'e s3_upload \<Rightarrow> PutObjectRequest \<Rightarrow> bool" where
  "resolves s3 req = (snd (s3 req) = None)"

text \<open>
  A run \<open>r\<close> started on trace \<open>t\<close> failed fast: it threw \<open>err\<close>, handed exactly the
  requests \<open>reqs\<close> to the storage client, and what it printed ends with the failure line
  for \<open>err\<close>, holds no other failure line, and holds \<open>n\<close> completion lines.
\<close>

definition failed_fast ::
  "'e trace \<Rightarrow> ('e + unit) \<times> 'e trace \<Rightarrow> PutObjectRequest list \<Rightarrow> nat \<Rightarrow> 'e \<Rightarrow> bool" where
  "failed_fast t r reqs n err =
     (let new = drop (length (console t)) (console (snd r))
      in fst r = Inl err \<and>
         uploads (snd r) = uploads t @ reqs \<and>
         last new = FileUploadFailed err \<and>
         filter is_failed new = [FileUploadFailed err] \<and>
         length (filter is_completed new) = n)"


subsection \<open>A scenario of three files\<close>

text \<open>
  File discovery yields three files (or none); the storage client rejects the upload of the
  second with \<^verbatim>\<open>AccessDenied\<close> and resolves every other one.
\<close>

definition three_files :: "'a \<Rightarrow> string list" where
  "three_files params = [''/build/out/a.txt'', ''/build/out/b.txt'', ''/build/out/c.txt'']"

definition no_files :: "'a \<Rightarrow> string list" where
  "no_files params = []"

definition rejects_second :: "string s3_upload" where
  "rejects_second req =
     (if Body req = ''/build/out/b.txt'' then ([(512, 2048)], Some ''AccessDenied'')
      else ([(2048, 2048)], None))"

definition always_resolves :: "string s3_upload" where
  "always_resolves req = ([], None)"

definition empty_trace :: "string trace" where
  "empty_trace = \<lparr>console = [], uploads = []\<rparr>"

subsection \<open>The path before the final replacement\<close>

text \<open>
  The value \<^verbatim>\<open>normalizeKeyPath\<close> holds in its local variable \<^verbatim>\<open>targetPath\<close> when it
  reaches its last line: the part of the file path it keeps (the base name when
  flattening, the relative path otherwise), joined under the target folder when one is
  set. The key is this path with its backslashes replaced.
\<close>

definition kept_part :: "path_module \<Rightarrow> string \<Rightarrow> 'a Parameters_scheme \<Rightarrow> string" where
  "kept_part P file params =
     (if digitalFlattenFolders params then basename P file
      else relativePath_of P file (digitalSourceFolder params))"

definition targetPath_of :: "path_module \<Rightarrow> string \<Rightarrow> 'a Parameters_scheme \<Rightarrow> string" where
  "targetPath_of P file params =
     (if truthy (digitalTargetFolder params)
      then join P (the (digitalTargetFolder params)) (kept_part P file params)
      else kept_part P file params)"

subsection \<open>Conditions on paths\<close>

text \<open>
  A string without a backslash, and a target folder that is unset or free of backslashes.
\<close>

definition backslash_free :: "string \<Rightarrow> bool" where
  "backslash_free s = list_all (\<lambda>c. c \<noteq> backslash) s"

definition backslash_free_target :: "string option \<Rightarrow> bool" where
  "backslash_free_target targetFolder =
     (case targetFolder of None \<Rightarrow> True | Some t \<Rightarrow> backslash_free t)"

text \<open>A string that begins with a slash or with a backslash.\<close>

definition leading_separator :: "string \<Rightarrow> bool" where
  "leading_separator s =
     (case s of [] \<Rightarrow> False | c # rest \<Rightarrow> c = CHR ''/'' \<or> c = backslash)"


definition proper_segment :: "string \<Rightarrow> bool" where
  "proper_segment s = (s \<noteq> [] \<and> s \<noteq> ''.'' \<and> s \<noteq> ''..'')"

definition normal_relative :: "string \<Rightarrow> bool" where
  "normal_relative r = list_all proper_segment (split_sep CHR ''/'' r)"

text \<open>
  Two strings mix their separators when, at some position, one has a slash where the other
  has a backslash. Two strings that are both free of slashes, or both free of backslashes,
  do not.
\<close>

definition mixes_separators :: "string \<Rightarrow> string \<Rightarrow> bool" where
  "mixes_separators r1 r2 =
     list_ex (\<lambda>(a, b). (a = CHR ''/'' \<and> b = backslash) \<or> (a = backslash \<and> b = CHR ''/''))
       (zip r1 r2)"

subsection \<open>The algorithm in the words of the specification\<close>

text \<open>
  Key normalisation as the specification describes it, step by step: strip the source
  folder by its length and drop one leading separator (\<open>spec_relative\<close>); keep the base
  name when flattening and the relative path otherwise, joined under the target folder when
  one is configured, that is, set and not empty (\<open>spec_destination\<close>); replace every
  local path separator by a slash (\<open>spec_normalizeKey\<close>).
\<close>

definition spec_relative :: "path_module \<Rightarrow> string \<Rightarrow> string \<Rightarrow> string" where
  "spec_relative P filePath sourceFolder =
     (case drop (length sourceFolder) filePath of
        [] \<Rightarrow> []
      | c # rest \<Rightarrow> if c = sep P then rest else c # rest)"

definition spec_destination ::
  "path_module \<Rightarrow> string \<Rightarrow> string \<Rightarrow> string option \<Rightarrow> bool \<Rightarrow> string" where
  "spec_destination P filePath sourceFolder targetFolder flatten =
     (let kept = (if flatten then basename P filePath
                  else spec_relative P filePath sourceFolder)
      in case targetFolder of
           None \<Rightarrow> kept
         | Some prefix \<Rightarrow> if prefix = [] then kept else join P prefix kept)"

definition spec_normalizeKey ::
  "path_module \<Rightarrow> string \<Rightarrow> string \<Rightarrow> string option \<Rightarrow> bool \<Rightarrow> string" where
  "spec_normalizeKey P filePath sourceFolder targetFolder flatten =
     map (\<lambda>c. if c = sep P then CHR ''/'' else c)
       (spec_destination P filePath sourceFolder targetFolder flatten)"

subsection \<open>A source folder without target folder\<close>

text \<open>
  A configuration with source folder \<^verbatim>\<open>/src\<close>, no target folder and no flattening, and
  the path of a file in \<^verbatim>\<open>/src\<close> whose name holds a backslash, which a POSIX file
  name may: the letter \<^verbatim>\<open>a\<close>, a backslash, and \<^verbatim>\<open>b.txt\<close>.
\<close>

definition bare_params :: Parameters where
  "bare_params =
     \<lparr> digitalRegion = ''nyc3'', digitalBucket = ''artifacts'', digitalAcl = ''private'',
       digitalSourceFolder = ''/src'', digitalTargetFolder = None,
       digitalFlattenFolders = False \<rparr>"

definition bare_this_params :: Upload_Parameters where
  "bare_this_params =
     \<lparr> digitalRegion = ''nyc3'', digitalBucket = ''artifacts'', digitalAcl = ''private'',
       digitalSourceFolder = ''/src'', digitalTargetFolder = None,
       digitalFlattenFolders = False, digitalContentType = None \<rparr>"

definition file_with_backslash :: string where
  "file_with_backslash = ''/src/a'' @ backslash # ''b.txt''"


text \<open>
  A configuration on a host whose separator is the backslash: the source folder is
  \<^verbatim>\<open>C:\<close>, a backslash, \<^verbatim>\<open>out\<close>, with no target folder and no flattening; one file
  \<^verbatim>\<open>a.txt\<close> lies in the source folder and another \<^verbatim>\<open>a.txt\<close> in its subfolder
  \<^verbatim>\<open>img\<close>.
\<close>

definition windows_params :: Parameters where
  "windows_params =
     \<lparr> digitalRegion = ''nyc3'', digitalBucket = ''artifacts'', digitalAcl = ''private'',
       digitalSourceFolder = ''C:'' @ backslash # ''out'', digitalTargetFolder = None,
       digitalFlattenFolders = False \<rparr>"

definition windows_file :: string where
  "windows_file = ''C:'' @ backslash # ''out'' @ backslash # ''a.txt''"

definition windows_nested_file :: string where
  "windows_nested_file =
     ''C:'' @ backslash # ''out'' @ backslash # ''img'' @ backslash # ''a.txt''"

section \<open>Basic facts\<close>

lemma slash_neq_backslash: "CHR ''/'' \<noteq> backslash"
  by (simp add: backslash_def)


lemma replace_backslashes_id: "backslash \<notin> set s \<Longrightarrow> replace_backslashes s = s"
  by (induction s) (auto simp: replace_backslashes_def)

lemma replace_backslashes_append:
  "replace_backslashes (a @ b) = replace_backslashes a @ replace_backslashes b"
  by (simp add: replace_backslashes_def)

lemma known_values_nonempty: "list_all (\<lambda>(k, v). v \<noteq> []) knownMimeTypes"
  by code_simp

lemma Map_get_value: "Map_get knownMimeTypes k = Some t \<Longrightarrow> t \<noteq> []"
proof -
  assume "Map_get knownMimeTypes k = Some t"
  then have "(k, t) \<in> set (rev knownMimeTypes)"
    unfolding Map_get_def by (rule map_of_SomeD)
  then have "(k, t) \<in> set knownMimeTypes" by simp
  with known_values_nonempty show "t \<noteq> []"
    by (auto simp: list_all_iff)
qed

lemma example_keys:
  "Spaces_normalizeKeyPath posix ''/build/out/a.txt'' example_params = ''release/a.txt''"
  "Spaces_normalizeKeyPath posix ''/build/out/img/b.png'' example_params = ''release/img/b.png''"
  "Spaces_normalizeKeyPath posix ''/build/out/a.txt''
     (example_params\<lparr>digitalFlattenFolders := True\<rparr>) = ''release/a.txt''"
  "Spaces_normalizeKeyPath posix ''/build/out/img/b.png''
     (example_params\<lparr>digitalFlattenFolders := True\<rparr>) = ''release/b.png''"
  by code_simp+

lemma example_keys_Upload:
  "Upload_normalizeKeyPath posix example_this_params ''/build/out/a.txt'' = ''release/a.txt''"
  "Upload_normalizeKeyPath posix example_this_params ''/build/out/img/b.png'' = ''release/img/b.png''"
  "Upload_normalizeKeyPath posix (example_this_params\<lparr>digitalFlattenFolders := True\<rparr>)
     ''/build/out/a.txt'' = ''release/a.txt''"
  "Upload_normalizeKeyPath posix (example_this_params\<lparr>digitalFlattenFolders := True\<rparr>)
     ''/build/out/img/b.png'' = ''release/b.png''"
  by code_simp+

section \<open>The two key normalisers agree\<close>

text \<open>
  Claim C10. The minimal uploader's \<^verbatim>\<open>normalizeKeyPath\<close> and the typed uploader's return
  the same key whenever they are given the same file path, source folder, target folder
  and flatten flag, on every host.
\<close>

theorem normalizeKeyPath_variants_agree:
  fixes p :: "'a Parameters_scheme" and this_params :: Upload_Parameters
  assumes "digitalSourceFolder p = digitalSourceFolder this_params"
    and "digitalTargetFolder p = digitalTargetFolder this_params"
    and "digitalFlattenFolders p = digitalFlattenFolders this_params"
  shows "Spaces_normalizeKeyPath P file p = Upload_normalizeKeyPath P this_params file"
  using assms by (simp add: Spaces_normalizeKeyPath_def Upload_normalizeKeyPath_def Let_def)

theorem normalizeKeyPath_variants_agree_witness:
  "digitalSourceFolder example_params = digitalSourceFolder example_this_params \<and>
   digitalTargetFolder example_params = digitalTargetFolder example_this_params \<and>
   digitalFlattenFolders example_params = digitalFlattenFolders example_this_params \<and>
   Spaces_normalizeKeyPath posix ''/build/out/img/b.png'' example_params = ''release/img/b.png'' \<and>
   Upload_normalizeKeyPath posix example_this_params ''/build/out/img/b.png'' = ''release/img/b.png''"
proof -
  have h: "digitalSourceFolder example_params = digitalSourceFolder example_this_params"
    "digitalTargetFolder example_params = digitalTargetFolder example_this_params"
    "digitalFlattenFolders example_params = digitalFlattenFolders example_this_params"
    by (simp_all add: example_params_def example_this_params_def)
  have k: "Spaces_normalizeKeyPath posix ''/build/out/img/b.png'' example_params = ''release/img/b.png''"
    by (rule example_keys)
  from normalizeKeyPath_variants_agree [OF h, of posix "''/build/out/img/b.png''"] h k
  show ?thesis by simp
qed

section \<open>Flattening\<close>

text \<open>
  Claim C5. With the flatten flag set, two files with the same base name get the same key,
  however deep each lies under the source folder: the key is computed from the base name
  and the target folder alone, and nothing tells the two files apart. This holds for both
  uploaders on every host.
\<close>

theorem flatten_same_basename_same_key:
  fixes p :: "'a Parameters_scheme" and this_params :: Upload_Parameters
  shows "(digitalFlattenFolders p \<and> basename P file1 = basename P file2 \<longrightarrow>
            Spaces_normalizeKeyPath P file1 p = Spaces_normalizeKeyPath P file2 p) \<and>
         (digitalFlattenFolders this_params \<and> basename P file1 = basename P file2 \<longrightarrow>
            Upload_normalizeKeyPath P this_params file1 = Upload_normalizeKeyPath P this_params file2)"
  by (simp add: Spaces_normalizeKeyPath_def Upload_normalizeKeyPath_def Let_def)

theorem flatten_same_basename_same_key_witness:
  "digitalFlattenFolders (example_params\<lparr>digitalFlattenFolders := True\<rparr>) \<and>
   digitalFlattenFolders (example_this_params\<lparr>digitalFlattenFolders := True\<rparr>) \<and>
   basename posix ''/build/out/b.png'' = basename posix ''/build/out/img/icons/b.png'' \<and>
   Spaces_normalizeKeyPath posix ''/build/out/b.png''
     (example_params\<lparr>digitalFlattenFolders := True\<rparr>) =
   Spaces_normalizeKeyPath posix ''/build/out/img/icons/b.png''
     (example_params\<lparr>digitalFlattenFolders := True\<rparr>) \<and>
   Upload_normalizeKeyPath posix (example_this_params\<lparr>digitalFlattenFolders := True\<rparr>)
     ''/build/out/b.png'' =
   Upload_normalizeKeyPath posix (example_this_params\<lparr>digitalFlattenFolders := True\<rparr>)
     ''/build/out/img/icons/b.png''"
proof -
  have a: "digitalFlattenFolders (example_params\<lparr>digitalFlattenFolders := True\<rparr>)"
    "digitalFlattenFolders (example_this_params\<lparr>digitalFlattenFolders := True\<rparr>)"
    by simp_all
  have b: "basename posix ''/build/out/b.png'' = basename posix ''/build/out/img/icons/b.png''"
    by (simp add: posix_def posix_basename_def)
  from flatten_same_basename_same_key
    [of "example_params\<lparr>digitalFlattenFolders := True\<rparr>" posix "''/build/out/b.png''"
        "''/build/out/img/icons/b.png''" "example_this_params\<lparr>digitalFlattenFolders := True\<rparr>"]
    a b
  show ?thesis by simp
qed

section \<open>Content type resolution\<close>

text \<open>
  Claim C6. A non-empty content-type override is returned unchanged, whatever the file is.
  Without an override, an extension found in the table resolves to the table's value and
  an extension absent from it to \<^verbatim>\<open>application/octet-stream\<close>. On a POSIX host
  \<^verbatim>\<open>a.pdf\<close> resolves to \<^verbatim>\<open>application/pdf\<close>, \<^verbatim>\<open>a.unknownext\<close> to the fallback, and
  \<^verbatim>\<open>a.pdf\<close> with the override \<^verbatim>\<open>text/plain\<close> to \<^verbatim>\<open>text/plain\<close>.
\<close>

theorem content_type_resolution:
  "(override \<noteq> [] \<longrightarrow> resolveContentType P file1 (Some override) = override) \<and>
   (\<not> truthy unset \<and> Map_get knownMimeTypes (extname P file2) = Some t \<longrightarrow>
      resolveContentType P file2 unset = t) \<and>
   (\<not> truthy unset \<and> Map_get knownMimeTypes (extname P file3) = None \<longrightarrow>
      resolveContentType P file3 unset = ''application/octet-stream'') \<and>
   resolveContentType posix ''a.pdf'' None = ''application/pdf'' \<and>
   resolveContentType posix ''a.unknownext'' None = ''application/octet-stream'' \<and>
   resolveContentType posix ''a.pdf'' (Some ''text/plain'') = ''text/plain''"
proof -
  have 1: "override \<noteq> [] \<longrightarrow> resolveContentType P file1 (Some override) = override"
    by (simp add: resolveContentType_def truthy_def)
  have 2: "\<not> truthy unset \<and> Map_get knownMimeTypes (extname P file2) = Some t \<longrightarrow>
      resolveContentType P file2 unset = t"
    using Map_get_value [of "extname P file2" t]
    by (simp add: resolveContentType_def truthy_def)
  have 3: "\<not> truthy unset \<and> Map_get knownMimeTypes (extname P file3) = None \<longrightarrow>
      resolveContentType P file3 unset = ''application/octet-stream''"
    by (simp add: resolveContentType_def truthy_def)
  have 4: "resolveContentType posix ''a.pdf'' None = ''application/pdf''"
    by code_simp
  have 5: "resolveContentType posix ''a.unknownext'' None = ''application/octet-stream''"
    by code_simp
  have 6: "resolveContentType posix ''a.pdf'' (Some ''text/plain'') = ''text/plain''"
    by code_simp
  from 1 2 3 4 5 6 show ?thesis by blast
qed

theorem content_type_resolution_witness:
  "''text/plain'' \<noteq> [] \<and> resolveContentType posix ''a.pdf'' (Some ''text/plain'') = ''text/plain'' \<and>
   \<not> truthy None \<and> Map_get knownMimeTypes (extname posix ''a.pdf'') = Some ''application/pdf'' \<and>
   resolveContentType posix ''a.pdf'' None = ''application/pdf'' \<and>
   Map_get knownMimeTypes (extname posix ''a.unknownext'') = None \<and>
   resolveContentType posix ''a.unknownext'' None = ''application/octet-stream''"
proof -
  have a: "\<not> truthy None" by (simp add: truthy_def)
  have b: "Map_get knownMimeTypes (extname posix ''a.pdf'') = Some ''application/pdf''"
    by code_simp
  have c: "Map_get knownMimeTypes (extname posix ''a.unknownext'') = None"
    by code_simp
  from content_type_resolution
    [of "''text/plain''" posix "''a.pdf''" None "''a.pdf''" "''application/pdf''" "''a.unknownext''"]
    a b c
  show ?thesis by simp
qed

section \<open>Running the uploaders\<close>

lemma progress_fold:
  "foldl (\<lambda>t' (loaded, total). emit (FileUploadProgress loaded total) t') t ps =
     \<lparr>console = console t @ progress_events ps, uploads = uploads t\<rparr>"
  by (induction ps arbitrary: t) (auto simp: emit_def progress_events_def)

lemma send_eq:
  "send s3 req t =
     (snd (s3 req),
      \<lparr>console = console t @ progress_events (fst (s3 req)), uploads = uploads t @ [req]\<rparr>)"
  by (simp add: send_def progress_fold Let_def)

lemma Spaces_step_ok:
  assumes "resolves s3 (Spaces_request P params f)"
  shows "Spaces_upload_files P s3 params (f # fs) t =
         Spaces_upload_files P s3 params fs
           \<lparr>console = console t @ Spaces_ok_events P s3 params f,
            uploads = uploads t @ [Spaces_request P params f]\<rparr>"
  using assms
  by (simp add: resolves_def send_eq emit_def Spaces_ok_events_def ok_events_def Let_def)

lemma Spaces_step_fail:
  assumes "snd (s3 (Spaces_request P params f)) = Some err"
  shows "Spaces_upload_files P s3 params (f # fs) t =
         (Inl err,
          \<lparr>console = console t @
               fail_events f (Spaces_normalizeKeyPath P f params) None
                 (fst (s3 (Spaces_request P params f))) err,
            uploads = uploads t @ [Spaces_request P params f]\<rparr>)"
  using assms by (simp add: send_eq emit_def fail_events_def Let_def)

lemma Spaces_files_fail:
  assumes "list_all (\<lambda>g. resolves s3 (Spaces_request P params g)) pre"
    and "snd (s3 (Spaces_request P params f)) = Some err"
  shows "Spaces_upload_files P s3 params (pre @ f # post) t =
         (Inl err,
          \<lparr>console = console t @ concat (map (Spaces_ok_events P s3 params) pre) @
               fail_events f (Spaces_normalizeKeyPath P f params) None
                 (fst (s3 (Spaces_request P params f))) err,
            uploads = uploads t @ map (Spaces_request P params) (pre @ [f])\<rparr>)"
  using assms(1)
proof (induction pre arbitrary: t)
  case Nil
  show ?case using assms(2) by (simp add: Spaces_step_fail del: Spaces_upload_files.simps)
next
  case (Cons g pre)
  from Cons.prems have g: "resolves s3 (Spaces_request P params g)"
    and pre: "list_all (\<lambda>g. resolves s3 (Spaces_request P params g)) pre"
    by simp_all
  show ?case
    using Cons.IH [OF pre] g by (simp add: Spaces_step_ok del: Spaces_upload_files.simps)
qed

lemma filter_progress [simp]:
  "filter is_failed (progress_events ps) = []"
  "filter is_completed (progress_events ps) = []"
  by (induction ps) (auto simp: progress_events_def)

lemma filter_ok_events [simp]:
  "filter is_failed (ok_events file key ct ps) = []"
  "filter is_completed (ok_events file key ct ps) = [FileUploadCompleted file key]"
  by (simp_all add: ok_events_def)

lemma filter_fail_events [simp]:
  "filter is_failed (fail_events file key ct ps err) = [FileUploadFailed err]"
  "filter is_completed (fail_events file key ct ps err) = []"
  "last (fail_events file key ct ps err) = FileUploadFailed err"
  "fail_events file key ct ps err \<noteq> []"
  by (simp_all add: fail_events_def)

lemma filter_concat_ok:
  assumes "\<And>g. filter is_failed (ev g) = []"
    and "\<And>g. length (filter is_completed (ev g)) = 1"
  shows "filter is_failed (concat (map ev fs)) = []"
    and "length (filter is_completed (concat (map ev fs))) = length fs"
  using assms by (induction fs) simp_all

lemma Spaces_upload_rejected:
  assumes "findFiles params = pre @ f # post"
    and "list_all (\<lambda>g. resolves s3 (Spaces_request P params g)) pre"
    and "snd (s3 (Spaces_request P params f)) = Some err"
  shows "failed_fast t (Spaces_upload P findFiles s3 params t)
           (map (Spaces_request P params) (pre @ [f])) (length pre) err"
proof -
  have a: "filter is_failed (concat (map (Spaces_ok_events P s3 params) pre)) = []"
    by (rule filter_concat_ok) (simp_all add: Spaces_ok_events_def)
  have b: "length (filter is_completed (concat (map (Spaces_ok_events P s3 params) pre))) = length pre"
    by (rule filter_concat_ok) (simp_all add: Spaces_ok_events_def)
  show ?thesis
    unfolding failed_fast_def Spaces_upload_def
    by (simp add: assms(1) Spaces_files_fail [OF assms(2,3)] emit_def a b Let_def)
qed


lemma Upload_step_ok:
  assumes "resolves s3 (Upload_request P this_params f)"
  shows "Upload_init_files P s3 this_params (f # fs) t =
         Upload_init_files P s3 this_params fs
           \<lparr>console = console t @ Upload_ok_events P s3 this_params f,
            uploads = uploads t @ [Upload_request P this_params f]\<rparr>"
  using assms
  by (simp add: resolves_def send_eq emit_def Upload_ok_events_def ok_events_def Let_def)

lemma Upload_step_fail:
  assumes "snd (s3 (Upload_request P this_params f)) = Some err"
  shows "Upload_init_files P s3 this_params (f # fs) t =
         (Inl err,
          \<lparr>console = console t @
               fail_events f (Upload_normalizeKeyPath P this_params f)
                 (Some (resolveContentType P f (digitalContentType this_params)))
                 (fst (s3 (Upload_request P this_params f))) err,
            uploads = uploads t @ [Upload_request P this_params f]\<rparr>)"
  using assms by (simp add: send_eq emit_def fail_events_def Let_def)

lemma Upload_files_fail:
  assumes "list_all (\<lambda>g. resolves s3 (Upload_request P this_params g)) pre"
    and "snd (s3 (Upload_request P this_params f)) = Some err"
  shows "Upload_init_files P s3 this_params (pre @ f # post) t =
         (Inl err,
          \<lparr>console = console t @ concat (map (Upload_ok_events P s3 this_params) pre) @
               fail_events f (Upload_normalizeKeyPath P this_params f)
                 (Some (resolveContentType P f (digitalContentType this_params)))
                 (fst (s3 (Upload_request P this_params f))) err,
            uploads = uploads t @ map (Upload_request P this_params) (pre @ [f])\<rparr>)"
  using assms(1)
proof (induction pre arbitrary: t)
  case Nil
  show ?case using assms(2) by (simp add: Upload_step_fail del: Upload_init_files.simps)
next
  case (Cons g pre)
  from Cons.prems have g: "resolves s3 (Upload_request P this_params g)"
    and pre: "list_all (\<lambda>g. resolves s3 (Upload_request P this_params g)) pre"
    by simp_all
  show ?case
    using Cons.IH [OF pre] g by (simp add: Upload_step_ok del: Upload_init_files.simps)
qed

lemma Upload_init_rejected:
  assumes "findFiles this_params = pre @ f # post"
    and "list_all (\<lambda>g. resolves s3 (Upload_request P this_params g)) pre"
    and "snd (s3 (Upload_request P this_params f)) = Some err"
  shows "failed_fast t (Upload_init P findFiles s3 this_params t)
           (map (Upload_request P this_params) (pre @ [f])) (length pre) err"
proof -
  have a: "filter is_failed (concat (map (Upload_ok_events P s3 this_params) pre)) = []"
    by (rule filter_concat_ok) (simp_all add: Upload_ok_events_def)
  have b: "length (filter is_completed (concat (map (Upload_ok_events P s3 this_params) pre))) =
           length pre"
    by (rule filter_concat_ok) (simp_all add: Upload_ok_events_def)
  show ?thesis
    unfolding failed_fast_def Upload_init_def
    by (simp add: assms(1) Upload_files_fail [OF assms(2,3)] emit_def a b Let_def)
qed


lemma Spaces_upload_console:
  assumes "findFiles params = pre @ f # post"
    and "list_all (\<lambda>g. resolves s3 (Spaces_request P params g)) pre"
    and "snd (s3 (Spaces_request P params f)) = Some err"
  shows "drop (length (console t)) (console (snd (Spaces_upload P findFiles s3 params t))) =
           UploadingFiles (digitalSourceFolder params)
             (target_or_root (digitalTargetFolder params)) (digitalBucket params) #
           concat (map (Spaces_ok_events P s3 params) pre) @
           UploadingFile f (Spaces_normalizeKeyPath P f params) None #
           progress_events (fst (s3 (Spaces_request P params f))) @ [FileUploadFailed err]"
  unfolding Spaces_upload_def
  by (simp add: assms(1) Spaces_files_fail [OF assms(2,3)] emit_def fail_events_def Let_def)

lemma Upload_init_console:
  assumes "findFiles this_params = pre @ f # post"
    and "list_all (\<lambda>g. resolves s3 (Upload_request P this_params g)) pre"
    and "snd (s3 (Upload_request P this_params f)) = Some err"
  shows "drop (length (console t)) (console (snd (Upload_init P findFiles s3 this_params t))) =
           UploadingFiles (digitalSourceFolder this_params)
             (target_or_root (digitalTargetFolder this_params)) (digitalBucket this_params) #
           concat (map (Upload_ok_events P s3 this_params) pre) @
           UploadingFile f (Upload_normalizeKeyPath P this_params f)
             (Some (resolveContentType P f (digitalContentType this_params))) #
           progress_events (fst (s3 (Upload_request P this_params f))) @ [FileUploadFailed err]"
  unfolding Upload_init_def
  by (simp add: assms(1) Upload_files_fail [OF assms(2,3)] emit_def fail_events_def Let_def)

section \<open>Fail-fast\<close>

text \<open>
  Claim C7, as amended. When the files before some file all upload and that file's upload
  rejects with \<open>err\<close>, the operation prints a failure line carrying \<open>err\<close>, throws
  \<open>err\<close> and stops: it has handed the storage client the requests of the files up to
  the rejected one and no other, and it has printed one completion line for each file
  before it and exactly one failure line. With three files and the second rejected that is
  one completion line, one failure line and no request for the third file. This holds for
  both uploaders. The failure line is printed without the file path; the path is printed
  by the rejected file's "uploading" line before it. What the operation prints is, in this
  order: the start line; for each file before the rejected one its "uploading" line, its
  progress lines and its completion line; then the rejected file's "uploading" line with
  its path and key, its progress lines, and the failure line.
\<close>

theorem upload_fails_fast:
  fixes params :: Parameters and this_params :: Upload_Parameters
  shows "(findFiles params = pre @ f # post \<and>
          list_all (\<lambda>g. resolves s3 (Spaces_request P params g)) pre \<and>
          snd (s3 (Spaces_request P params f)) = Some err \<longrightarrow>
            failed_fast t (Spaces_upload P findFiles s3 params t)
              (map (Spaces_request P params) (pre @ [f])) (length pre) err \<and>
            drop (length (console t)) (console (snd (Spaces_upload P findFiles s3 params t))) =
              UploadingFiles (digitalSourceFolder params)
                (target_or_root (digitalTargetFolder params)) (digitalBucket params) #
              concat (map (Spaces_ok_events P s3 params) pre) @
              UploadingFile f (Spaces_normalizeKeyPath P f params) None #
              progress_events (fst (s3 (Spaces_request P params f))) @ [FileUploadFailed err]) \<and>
         (findFiles' this_params = pre @ f # post \<and>
          list_all (\<lambda>g. resolves s3 (Upload_request P this_params g)) pre \<and>
          snd (s3 (Upload_request P this_params f)) = Some err \<longrightarrow>
            failed_fast t (Upload_init P findFiles' s3 this_params t)
              (map (Upload_request P this_params) (pre @ [f])) (length pre) err \<and>
            drop (length (console t))
                (console (snd (Upload_init P findFiles' s3 this_params t))) =
              UploadingFiles (digitalSourceFolder this_params)
                (target_or_root (digitalTargetFolder this_params)) (digitalBucket this_params) #
              concat (map (Upload_ok_events P s3 this_params) pre) @
              UploadingFile f (Upload_normalizeKeyPath P this_params f)
                (Some (resolveContentType P f (digitalContentType this_params))) #
              progress_events (fst (s3 (Upload_request P this_params f))) @
              [FileUploadFailed err])"
  using Spaces_upload_rejected [of findFiles params pre f post s3 P err t]
    Spaces_upload_console [of findFiles params pre f post s3 P err t]
    Upload_init_rejected [of findFiles' this_params pre f post s3 P err t]
    Upload_init_console [of findFiles' this_params pre f post s3 P err t]
  by simp

lemma scenario_hyps:
  "three_files example_params = [''/build/out/a.txt''] @ ''/build/out/b.txt'' # [''/build/out/c.txt'']"
  "list_all (\<lambda>g. resolves rejects_second (Spaces_request posix example_params g))
     [''/build/out/a.txt'']"
  "snd (rejects_second (Spaces_request posix example_params ''/build/out/b.txt'')) =
     Some ''AccessDenied''"
  "three_files example_this_params =
     [''/build/out/a.txt''] @ ''/build/out/b.txt'' # [''/build/out/c.txt'']"
  "list_all (\<lambda>g. resolves rejects_second (Upload_request posix example_this_params g))
     [''/build/out/a.txt'']"
  "snd (rejects_second (Upload_request posix example_this_params ''/build/out/b.txt'')) =
     Some ''AccessDenied''"
  by (simp_all add: three_files_def resolves_def rejects_second_def Spaces_request_def
      Upload_request_def)

theorem upload_fails_fast_witness:
  "three_files example_params = [''/build/out/a.txt''] @ ''/build/out/b.txt'' # [''/build/out/c.txt''] \<and>
   list_all (\<lambda>g. resolves rejects_second (Spaces_request posix example_params g))
     [''/build/out/a.txt''] \<and>
   snd (rejects_second (Spaces_request posix example_params ''/build/out/b.txt'')) =
     Some ''AccessDenied'' \<and>
   failed_fast empty_trace (Spaces_upload posix three_files rejects_second example_params empty_trace)
     (map (Spaces_request posix example_params) [''/build/out/a.txt'', ''/build/out/b.txt''])
     1 ''AccessDenied'' \<and>
   console (snd (Spaces_upload posix three_files rejects_second example_params empty_trace)) =
     [UploadingFiles ''/build/out'' ''release'' ''artifacts'',
      UploadingFile ''/build/out/a.txt'' ''release/a.txt'' None,
      FileUploadProgress 2048 2048,
      FileUploadCompleted ''/build/out/a.txt'' ''release/a.txt'',
      UploadingFile ''/build/out/b.txt'' ''release/b.txt'' None,
      FileUploadProgress 512 2048,
      FileUploadFailed ''AccessDenied''] \<and>
   three_files example_this_params =
     [''/build/out/a.txt''] @ ''/build/out/b.txt'' # [''/build/out/c.txt''] \<and>
   list_all (\<lambda>g. resolves rejects_second (Upload_request posix example_this_params g))
     [''/build/out/a.txt''] \<and>
   snd (rejects_second (Upload_request posix example_this_params ''/build/out/b.txt'')) =
     Some ''AccessDenied'' \<and>
   failed_fast empty_trace (Upload_init posix three_files rejects_second example_this_params empty_trace)
     (map (Upload_request posix example_this_params) [''/build/out/a.txt'', ''/build/out/b.txt''])
     1 ''AccessDenied'' \<and>
   console (snd (Upload_init posix three_files rejects_second example_this_params empty_trace)) =
     [UploadingFiles ''/build/out'' ''release'' ''site'',
      UploadingFile ''/build/out/a.txt'' ''release/a.txt'' (Some ''text/plain''),
      FileUploadProgress 2048 2048,
      FileUploadCompleted ''/build/out/a.txt'' ''release/a.txt'',
      UploadingFile ''/build/out/b.txt'' ''release/b.txt'' (Some ''text/plain''),
      FileUploadProgress 512 2048,
      FileUploadFailed ''AccessDenied'']"
proof -
  note inst = upload_fails_fast [of three_files example_params "[''/build/out/a.txt'']"
      "''/build/out/b.txt''" "[''/build/out/c.txt'']" rejects_second posix "''AccessDenied''"
      empty_trace three_files example_this_params]
  have e: "console empty_trace = []" by (simp add: empty_trace_def)
  have k: "Spaces_normalizeKeyPath posix ''/build/out/a.txt'' example_params = ''release/a.txt''"
    "Upload_normalizeKeyPath posix example_this_params ''/build/out/a.txt'' = ''release/a.txt''"
    "Spaces_normalizeKeyPath posix ''/build/out/b.txt'' example_params = ''release/b.txt''"
    "Upload_normalizeKeyPath posix example_this_params ''/build/out/b.txt'' = ''release/b.txt''"
    by code_simp+
  have c: "resolveContentType posix ''/build/out/a.txt'' (digitalContentType example_this_params) =
      ''text/plain''"
    "resolveContentType posix ''/build/out/b.txt'' (digitalContentType example_this_params) =
      ''text/plain''"
    by code_simp+
  have p: "digitalSourceFolder example_params = ''/build/out''"
    "target_or_root (digitalTargetFolder example_params) = ''release''"
    "digitalBucket example_params = ''artifacts''"
    "digitalSourceFolder example_this_params = ''/build/out''"
    "target_or_root (digitalTargetFolder example_this_params) = ''release''"
    "digitalBucket example_this_params = ''site''"
    by (simp_all add: example_params_def example_this_params_def target_or_root_def truthy_def)
  from inst scenario_hyps
  have r: "failed_fast empty_trace
       (Spaces_upload posix three_files rejects_second example_params empty_trace)
       (map (Spaces_request posix example_params) [''/build/out/a.txt'', ''/build/out/b.txt''])
       1 ''AccessDenied''"
    "failed_fast empty_trace
       (Upload_init posix three_files rejects_second example_this_params empty_trace)
       (map (Upload_request posix example_this_params) [''/build/out/a.txt'', ''/build/out/b.txt''])
       1 ''AccessDenied''"
    by simp_all
  from inst scenario_hyps
  have s: "console (snd (Spaces_upload posix three_files rejects_second example_params empty_trace)) =
     [UploadingFiles ''/build/out'' ''release'' ''artifacts'',
      UploadingFile ''/build/out/a.txt'' ''release/a.txt'' None,
      FileUploadProgress 2048 2048,
      FileUploadCompleted ''/build/out/a.txt'' ''release/a.txt'',
      UploadingFile ''/build/out/b.txt'' ''release/b.txt'' None,
      FileUploadProgress 512 2048,
      FileUploadFailed ''AccessDenied'']"
    "console (snd (Upload_init posix three_files rejects_second example_this_params empty_trace)) =
     [UploadingFiles ''/build/out'' ''release'' ''site'',
      UploadingFile ''/build/out/a.txt'' ''release/a.txt'' (Some ''text/plain''),
      FileUploadProgress 2048 2048,
      FileUploadCompleted ''/build/out/a.txt'' ''release/a.txt'',
      UploadingFile ''/build/out/b.txt'' ''release/b.txt'' (Some ''text/plain''),
      FileUploadProgress 512 2048,
      FileUploadFailed ''AccessDenied'']"
    by (simp_all add: e k c p Spaces_ok_events_def Upload_ok_events_def ok_events_def
        progress_events_def rejects_second_def Spaces_request_def Upload_request_def)
  from scenario_hyps r s show ?thesis by simp
qed

lemma scenario_console:
  "console (snd (Spaces_upload posix three_files rejects_second example_params empty_trace)) =
     [UploadingFiles ''/build/out'' ''release'' ''artifacts'',
      UploadingFile ''/build/out/a.txt'' ''release/a.txt'' None,
      FileUploadProgress 2048 2048,
      FileUploadCompleted ''/build/out/a.txt'' ''release/a.txt'',
      UploadingFile ''/build/out/b.txt'' ''release/b.txt'' None,
      FileUploadProgress 512 2048,
      FileUploadFailed ''AccessDenied'']"
  by code_simp

lemma scenario_console_Upload:
  "console (snd (Upload_init posix three_files rejects_second example_this_params empty_trace)) =
     [UploadingFiles ''/build/out'' ''release'' ''site'',
      UploadingFile ''/build/out/a.txt'' ''release/a.txt'' (Some ''text/plain''),
      FileUploadProgress 2048 2048,
      FileUploadCompleted ''/build/out/a.txt'' ''release/a.txt'',
      UploadingFile ''/build/out/b.txt'' ''release/b.txt'' (Some ''text/plain''),
      FileUploadProgress 512 2048,
      FileUploadFailed ''AccessDenied'']"
  by code_simp

text \<open>
  In the scenario the last line printed is the failure line, and it carries the error
  only: the path of the rejected file is not among its arguments.
\<close>

theorem failure_event_without_file_path:
  "last (console (snd (Spaces_upload posix three_files rejects_second example_params empty_trace))) =
     FileUploadFailed ''AccessDenied'' \<and>
   ''/build/out/b.txt'' \<notin> set (path_args
     (last (console (snd (Spaces_upload posix three_files rejects_second example_params
        empty_trace))))) \<and>
   last (console (snd (Upload_init posix three_files rejects_second example_this_params empty_trace))) =
     FileUploadFailed ''AccessDenied'' \<and>
   ''/build/out/b.txt'' \<notin> set (path_args
     (last (console (snd (Upload_init posix three_files rejects_second example_this_params
        empty_trace)))))"
  by (simp add: scenario_console scenario_console_Upload)

section \<open>Empty file list\<close>

text \<open>
  Claim C8, as amended. When file discovery yields no file, the typed uploader prints the
  start line and the "no files found" line, hands no request to the storage client and
  returns normally; the minimal uploader prints the start line only, hands no request to
  the storage client and returns normally.
\<close>

theorem empty_file_list:
  fixes params :: Parameters and this_params :: Upload_Parameters
  shows "(findFiles this_params = [] \<longrightarrow>
            Upload_init P findFiles s3 this_params t =
              (Inr (),
               \<lparr>console = console t @
                  [UploadingFiles (digitalSourceFolder this_params)
                     (target_or_root (digitalTargetFolder this_params)) (digitalBucket this_params),
                   FileNotFound (digitalSourceFolder this_params)],
                uploads = uploads t\<rparr>)) \<and>
         (findFiles' params = [] \<longrightarrow>
            Spaces_upload P findFiles' s3 params t =
              (Inr (),
               \<lparr>console = console t @
                  [UploadingFiles (digitalSourceFolder params)
                     (target_or_root (digitalTargetFolder params)) (digitalBucket params)],
                uploads = uploads t\<rparr>))"
  by (simp add: Upload_init_def Spaces_upload_def emit_def Let_def)

theorem empty_file_list_witness:
  "no_files example_this_params = [] \<and>
   Upload_init posix no_files always_resolves example_this_params empty_trace =
     (Inr (),
      \<lparr>console = [UploadingFiles ''/build/out'' ''release'' ''site'', FileNotFound ''/build/out''],
       uploads = []\<rparr>) \<and>
   no_files example_params = [] \<and>
   Spaces_upload posix no_files always_resolves example_params empty_trace =
     (Inr (), \<lparr>console = [UploadingFiles ''/build/out'' ''release'' ''artifacts''], uploads = []\<rparr>)"
  using empty_file_list [of no_files example_this_params posix always_resolves empty_trace
      no_files example_params]
  by (simp add: no_files_def empty_trace_def example_params_def example_this_params_def
      target_or_root_def truthy_def)

text \<open>
  With no file found the minimal uploader prints its start line and nothing else.
\<close>

theorem minimal_uploader_silent_on_empty_list:
  "no_files example_params = [] \<and>
   console (snd (Spaces_upload posix no_files always_resolves example_params empty_trace)) =
     [UploadingFiles ''/build/out'' ''release'' ''artifacts''] \<and>
   FileNotFound ''/build/out'' \<notin>
     set (console (snd (Spaces_upload posix no_files always_resolves example_params empty_trace)))"
  by (simp add: no_files_def Spaces_upload_def emit_def empty_trace_def example_params_def
      target_or_root_def truthy_def)

section \<open>The extension is looked up as it is written\<close>

text \<open>
  On a POSIX host \<^verbatim>\<open>a.PDF\<close> and \<^verbatim>\<open>a.pdf\<close> resolve to different content types.
\<close>

theorem extension_lookup_is_case_sensitive:
  "resolveContentType posix ''a.PDF'' None \<noteq> resolveContentType posix ''a.pdf'' None"
  by code_simp

text \<open>
  Claim C2, as amended. Without a content-type override, the content type is the table's
  value at the extension exactly as \<^verbatim>\<open>path.extname\<close> returns it (with its leading dot and
  in its own letter case), or \<^verbatim>\<open>application/octet-stream\<close> when the table has no such
  key. The lookup is case-sensitive: on a POSIX host \<^verbatim>\<open>a.pdf\<close> resolves to
  \<^verbatim>\<open>application/pdf\<close> and \<^verbatim>\<open>a.PDF\<close>, whose extension \<^verbatim>\<open>.PDF\<close> is not a key, to
  the fallback.
\<close>

theorem content_type_from_extension_as_written:
  "(\<not> truthy unset \<longrightarrow>
      resolveContentType P file unset =
        (case Map_get knownMimeTypes (extname P file) of
           None \<Rightarrow> ''application/octet-stream'' | Some t \<Rightarrow> t)) \<and>
   extname posix ''a.PDF'' = ''.PDF'' \<and>
   Map_get knownMimeTypes ''.PDF'' = None \<and>
   resolveContentType posix ''a.PDF'' None = ''application/octet-stream'' \<and>
   extname posix ''a.pdf'' = ''.pdf'' \<and>
   resolveContentType posix ''a.pdf'' None = ''application/pdf''"
proof -
  have 1: "\<not> truthy unset \<longrightarrow>
      resolveContentType P file unset =
        (case Map_get knownMimeTypes (extname P file) of
           None \<Rightarrow> ''application/octet-stream'' | Some t \<Rightarrow> t)"
    using Map_get_value [of "extname P file"]
    by (auto simp: resolveContentType_def truthy_def split: option.splits)
  have 2: "extname posix ''a.PDF'' = ''.PDF''" by code_simp
  have 3: "Map_get knownMimeTypes ''.PDF'' = None" by code_simp
  have 4: "resolveContentType posix ''a.PDF'' None = ''application/octet-stream''" by code_simp
  have 5: "extname posix ''a.pdf'' = ''.pdf''" by code_simp
  have 6: "resolveContentType posix ''a.pdf'' None = ''application/pdf''" by code_simp
  from 1 2 3 4 5 6 show ?thesis by blast
qed

theorem content_type_from_extension_as_written_witness:
  "\<not> truthy (Some []) \<and>
   resolveContentType posix ''a.PDF'' (Some []) =
     (case Map_get knownMimeTypes (extname posix ''a.PDF'') of
        None \<Rightarrow> ''application/octet-stream'' | Some t \<Rightarrow> t) \<and>
   resolveContentType posix ''a.PDF'' (Some []) = ''application/octet-stream''"
proof -
  have a: "\<not> truthy (Some [])" by (simp add: truthy_def)
  have b: "Map_get knownMimeTypes (extname posix ''a.PDF'') = None" by code_simp
  from content_type_from_extension_as_written [of "Some []" posix "''a.PDF''"] a b
  show ?thesis by simp
qed

section \<open>Facts about the POSIX path module\<close>

lemma posix_fields:
  "sep posix = CHR ''/''" "join posix = posix_join" "basename posix = posix_basename"
  "extname posix = posix_extname"
  by (simp_all add: posix_def)


lemma backslash_free_iff: "backslash_free s \<longleftrightarrow> backslash \<notin> set s"
  by (auto simp: backslash_free_def list_all_iff)

lemma split_sep_nonempty: "split_sep c s \<noteq> []"
  by (induction s) (simp_all add: Let_def)

lemma split_sep_append: "split_sep c (a @ c # b) = split_sep c a @ split_sep c b"
proof (induction a)
  case Nil
  show ?case by simp
next
  case (Cons x a)
  obtain t ss where r: "split_sep c a = t # ss"
    using split_sep_nonempty [of c a] by (cases "split_sep c a") auto
  show ?case by (simp add: Cons.IH r Let_def)
qed

lemma split_sep_snoc: "split_sep c (a @ [c]) = split_sep c a @ [[]]"
  using split_sep_append [of c a "[]"] by simp

lemma join_segs_Cons_Cons: "join_segs ((x # t) # ss) = x # join_segs (t # ss)"
  by (cases ss) simp_all

lemma join_segs_Nil_Cons: "ss \<noteq> [] \<Longrightarrow> join_segs ([] # ss) = CHR ''/'' # join_segs ss"
  by (cases ss) simp_all

lemma join_split: "join_segs (split_sep CHR ''/'' s) = s"
proof (induction s)
  case Nil
  show ?case by simp
next
  case (Cons x s)
  obtain t ss where r: "split_sep CHR ''/'' s = t # ss"
    using split_sep_nonempty [of "CHR ''/''" s] by (cases "split_sep CHR ''/'' s") auto
  from Cons.IH r have s: "join_segs (t # ss) = s" by simp
  show ?case
  proof (cases "x = CHR ''/''")
    case True
    then show ?thesis using s r by (simp add: Let_def join_segs_Nil_Cons)
  next
    case False
    then show ?thesis using s r by (simp add: Let_def join_segs_Cons_Cons)
  qed
qed

lemma split_sep_chars: "t \<in> set (split_sep c s) \<Longrightarrow> set t \<subseteq> set s \<and> c \<notin> set t"
proof (induction s arbitrary: t)
  case Nil
  then show ?case by simp
next
  case (Cons x s)
  obtain u ss where r: "split_sep c s = u # ss"
    using split_sep_nonempty [of c s] by (cases "split_sep c s") auto
  have u: "set u \<subseteq> set s \<and> c \<notin> set u" using Cons.IH [of u] r by simp
  have ss: "\<And>v. v \<in> set ss \<Longrightarrow> set v \<subseteq> set s \<and> c \<notin> set v" using Cons.IH r by simp
  from Cons.prems r have "t = [] \<or> t = x # u \<and> x \<noteq> c \<or> t \<in> set (u # ss)"
    by (auto simp: Let_def split: if_splits)
  then show ?case using u ss by auto
qed

lemma join_segs_chars: "set (join_segs ss) \<subseteq> insert CHR ''/'' (\<Union>(set ` set ss))"
  by (induction ss rule: join_segs.induct) auto

lemma join_segs_hd:
  "ss \<noteq> [] \<Longrightarrow> [] \<notin> set ss \<Longrightarrow> join_segs ss \<noteq> [] \<and> hd (join_segs ss) = hd (hd ss)"
  by (induction ss rule: join_segs.induct) auto

lemma join_segs_append:
  "ss \<noteq> [] \<Longrightarrow> ts \<noteq> [] \<Longrightarrow> join_segs (ss @ ts) = join_segs ss @ CHR ''/'' # join_segs ts"
proof (induction ss rule: join_segs.induct)
  case 1
  then show ?case by simp
next
  case (2 s)
  then show ?case by (cases ts) simp_all
next
  case (3 s t ss)
  then show ?case by simp
qed

lemma norm_step_subset:
  "set (norm_step a res seg) \<subseteq> insert ''..'' (insert seg (set res))"
  by (auto simp: norm_step_def dest: in_set_butlastD)

lemma norm_step_no_empty: "[] \<notin> set res \<Longrightarrow> [] \<notin> set (norm_step a res seg)"
  by (auto simp: norm_step_def dest: in_set_butlastD)

lemma foldl_norm_step_subset:
  "set (foldl (norm_step a) res segs) \<subseteq> insert ''..'' (set res \<union> set segs)"
proof (induction segs arbitrary: res)
  case Nil
  show ?case by auto
next
  case (Cons s segs)
  from Cons.IH [of "norm_step a res s"] norm_step_subset [of a res s]
  show ?case by auto
qed

lemma foldl_norm_step_no_empty:
  "[] \<notin> set res \<Longrightarrow> [] \<notin> set (foldl (norm_step a) res segs)"
  by (induction segs arbitrary: res) (simp_all add: norm_step_no_empty)

lemma foldl_norm_step_proper:
  "list_all proper_segment segs \<Longrightarrow> foldl (norm_step a) res segs = res @ segs"
  by (induction segs arbitrary: res) (simp_all add: norm_step_def proper_segment_def)

lemma normalizeString_chars:
  "set (normalizeString a p) \<subseteq> insert CHR ''/'' (insert CHR ''.'' (set p))"
proof
  fix c assume "c \<in> set (normalizeString a p)"
  then have "c = CHR ''/'' \<or> (\<exists>s \<in> set (foldl (norm_step a) [] (split_sep CHR ''/'' p)). c \<in> set s)"
    using join_segs_chars [of "foldl (norm_step a) [] (split_sep CHR ''/'' p)"]
    by (auto simp: normalizeString_def)
  then show "c \<in> insert CHR ''/'' (insert CHR ''.'' (set p))"
  proof
    assume "c = CHR ''/''"
    then show ?thesis by simp
  next
    assume "\<exists>s \<in> set (foldl (norm_step a) [] (split_sep CHR ''/'' p)). c \<in> set s"
    then obtain s where s: "s \<in> set (foldl (norm_step a) [] (split_sep CHR ''/'' p))"
      and c: "c \<in> set s" by blast
    from s foldl_norm_step_subset [of a "[]" "split_sep CHR ''/'' p"]
    have "s = ''..'' \<or> s \<in> set (split_sep CHR ''/'' p)" by auto
    then show ?thesis
    proof
      assume "s = ''..''"
      with c show ?thesis by simp
    next
      assume "s \<in> set (split_sep CHR ''/'' p)"
      from split_sep_chars [OF this] c show ?thesis by auto
    qed
  qed
qed

lemma normalizeString_hd:
  assumes "normalizeString a p \<noteq> []"
  shows "hd (normalizeString a p) \<noteq> CHR ''/''"
proof -
  let ?N = "foldl (norm_step a) [] (split_sep CHR ''/'' p)"
  from assms have ne: "?N \<noteq> []" by (auto simp: normalizeString_def)
  have noempty: "[] \<notin> set ?N" by (rule foldl_norm_step_no_empty) simp
  from ne have "hd ?N \<in> set ?N" by simp
  with foldl_norm_step_subset [of a "[]" "split_sep CHR ''/'' p"]
  have "hd ?N = ''..'' \<or> hd ?N \<in> set (split_sep CHR ''/'' p)" by auto
  then have noslash: "CHR ''/'' \<notin> set (hd ?N)"
    using split_sep_chars [of "hd ?N" "CHR ''/''" p] by auto
  from ne noempty have "hd ?N \<noteq> []" by (metis hd_in_set)
  then have "hd (hd ?N) \<in> set (hd ?N)" by simp
  with noslash have "hd (hd ?N) \<noteq> CHR ''/''" by auto
  with join_segs_hd [OF ne noempty] show ?thesis by (simp add: normalizeString_def)
qed

lemma posix_normalize_chars:
  "set (posix_normalize p) \<subseteq> insert CHR ''/'' (insert CHR ''.'' (set p))"
  using normalizeString_chars [of "hd p \<noteq> CHR ''/''" p]
  by (auto simp: posix_normalize_def Let_def)

lemma posix_normalize_hd:
  assumes "p \<noteq> []" and "hd p \<noteq> CHR ''/''"
  shows "posix_normalize p \<noteq> [] \<and> hd (posix_normalize p) \<noteq> CHR ''/''"
  using assms normalizeString_hd [of True p]
  by (auto simp: posix_normalize_def Let_def)

lemma posix_join_chars:
  "set (posix_join a b) \<subseteq> insert CHR ''/'' (insert CHR ''.'' (set a \<union> set b))"
proof -
  let ?j = "if a = [] then b else if b = [] then a else a @ ''/'' @ b"
  have "set ?j \<subseteq> insert CHR ''/'' (set a \<union> set b)" by auto
  with posix_normalize_chars [of ?j] show ?thesis
    by (auto simp: posix_join_def Let_def)
qed

lemma posix_join_hd:
  assumes "a \<noteq> []" and "hd a \<noteq> CHR ''/''"
  shows "posix_join a b \<noteq> [] \<and> hd (posix_join a b) \<noteq> CHR ''/''"
proof -
  let ?j = "if b = [] then a else a @ ''/'' @ b"
  from assms have "?j \<noteq> []" "hd ?j \<noteq> CHR ''/''" by auto
  from posix_normalize_hd [OF this] assms(1) show ?thesis
    by (simp add: posix_join_def Let_def)
qed

lemma posix_basename_chars:
  "set (posix_basename f) \<subseteq> set f \<and> CHR ''/'' \<notin> set (posix_basename f)"
proof -
  have "set (takeWhile (\<lambda>c. c \<noteq> CHR ''/'') (dropWhile (\<lambda>c. c = CHR ''/'') (rev f))) \<subseteq>
        set (dropWhile (\<lambda>c. c = CHR ''/'') (rev f))"
    by (auto dest: set_takeWhileD)
  also have "\<dots> \<subseteq> set (rev f)"
    by (auto dest: set_dropWhileD)
  finally have "set (posix_basename f) \<subseteq> set f"
    by (simp add: posix_basename_def)
  moreover have "CHR ''/'' \<notin> set (posix_basename f)"
    by (auto simp: posix_basename_def dest: set_takeWhileD)
  ultimately show ?thesis by simp
qed

lemma normal_relative_nonempty: "normal_relative r \<Longrightarrow> r \<noteq> []"
  by (auto simp: normal_relative_def proper_segment_def)

lemma normal_relative_last: "normal_relative r \<Longrightarrow> last r \<noteq> CHR ''/''"
proof
  assume c: "normal_relative r" and l: "last r = CHR ''/''"
  from c have "r \<noteq> []" by (rule normal_relative_nonempty)
  then have "r = butlast r @ [CHR ''/'']" using l by (metis append_butlast_last_id)
  then have "split_sep CHR ''/'' r = split_sep CHR ''/'' (butlast r) @ [[]]"
    using split_sep_snoc [of "CHR ''/''" "butlast r"] by simp
  with c show False by (simp add: normal_relative_def proper_segment_def)
qed

lemma posix_join_normal:
  assumes "a \<noteq> []"
  shows "\<exists>lead. \<forall>r. normal_relative r \<longrightarrow> posix_join a r = lead @ r"
proof -
  define T where "T = foldl (norm_step (hd a \<noteq> CHR ''/'')) [] (split_sep CHR ''/'' a)"
  define lead where
    "lead = (if hd a = CHR ''/'' then ''/'' else []) @ (if T = [] then [] else join_segs T @ ''/'')"
  have "posix_join a r = lead @ r" if c: "normal_relative r" for r
  proof -
    from c have r: "r \<noteq> []" by (rule normal_relative_nonempty)
    from c have segs: "list_all proper_segment (split_sep CHR ''/'' r)"
      by (simp add: normal_relative_def)
    let ?j = "a @ CHR ''/'' # r"
    have j: "posix_join a r = posix_normalize ?j"
      using assms r by (simp add: posix_join_def)
    have hd: "hd ?j = hd a" using assms by simp
    have last: "last ?j \<noteq> CHR ''/''" using r normal_relative_last [OF c] by simp
    have "foldl (norm_step (hd a \<noteq> CHR ''/'')) [] (split_sep CHR ''/'' ?j) =
          T @ split_sep CHR ''/'' r"
      by (simp add: split_sep_append T_def foldl_norm_step_proper [OF segs])
    then have n: "normalizeString (hd a \<noteq> CHR ''/'') ?j = join_segs (T @ split_sep CHR ''/'' r)"
      by (simp add: normalizeString_def)
    have n': "join_segs (T @ split_sep CHR ''/'' r) =
              (if T = [] then [] else join_segs T @ ''/'') @ r"
      using join_segs_append [of T "split_sep CHR ''/'' r"] split_sep_nonempty [of "CHR ''/''" r]
      by (simp add: join_split)
    have ne: "(if T = [] then [] else join_segs T @ ''/'') @ r \<noteq> []" using r by simp
    show ?thesis
      unfolding j posix_normalize_def lead_def
      using ne last by (simp add: hd n n' Let_def)
  qed
  then show ?thesis by blast
qed

section \<open>The key against the specification's algorithm\<close>

lemma Upload_key_eq:
  "Upload_normalizeKeyPath P this_params file = Spaces_normalizeKeyPath P file this_params"
  by (simp add: Upload_normalizeKeyPath_def Spaces_normalizeKeyPath_def)

lemma relativePath_of_spec: "relativePath_of P file src = spec_relative P file src"
  by (cases "drop (length src) file")
    (simp_all add: relativePath_of_def spec_relative_def startsWith_def Let_def)

lemma key_is_replaced_destination:
  "Spaces_normalizeKeyPath P file p =
     replace_backslashes (spec_destination P file (digitalSourceFolder p)
       (digitalTargetFolder p) (digitalFlattenFolders p))"
  by (cases "digitalTargetFolder p")
    (simp_all add: Spaces_normalizeKeyPath_def spec_destination_def relativePath_of_spec
      truthy_def Let_def)

lemma map_slash_id: "map (\<lambda>c. if c = CHR ''/'' then CHR ''/'' else c) s = s"
  by (induction s) simp_all

lemma spec_key_posix:
  "spec_normalizeKey posix file src tgt fl = spec_destination posix file src tgt fl"
  by (simp add: spec_normalizeKey_def posix_fields map_slash_id)

lemma spec_relative_chars: "set (spec_relative P file src) \<subseteq> set file"
proof -
  have "set (drop (length src) file) \<subseteq> set file" by (rule set_drop_subset)
  then show ?thesis
    by (cases "drop (length src) file") (auto simp: spec_relative_def)
qed

lemma spec_destination_posix_backslash_free:
  assumes "backslash_free file"
    and "case tgt of None \<Rightarrow> True | Some t \<Rightarrow> backslash_free t"
  shows "backslash \<notin> set (spec_destination posix file src tgt fl)"
proof -
  let ?kept = "if fl then posix_basename file else spec_relative posix file src"
  have kept: "backslash \<notin> set ?kept"
    using assms(1) posix_basename_chars [of "file"] spec_relative_chars [of posix "file" src]
    by (auto simp: backslash_free_iff)
  show ?thesis
  proof (cases tgt)
    case None
    then show ?thesis using kept by (cases fl) (simp_all add: spec_destination_def posix_fields)
  next
    case (Some t)
    with assms(2) have t: "backslash \<notin> set t" by (simp add: backslash_free_iff)
    have "backslash \<notin> set (posix_join t ?kept)"
      using posix_join_chars [of t ?kept] t kept by (auto simp: backslash_def)
    then show ?thesis using Some kept by (cases fl) (simp_all add: spec_destination_def posix_fields Let_def)
  qed
qed

lemma key_posix_is_spec:
  assumes "backslash_free file" and "backslash_free_target (digitalTargetFolder p)"
  shows "Spaces_normalizeKeyPath posix file p =
         spec_normalizeKey posix file (digitalSourceFolder p) (digitalTargetFolder p)
           (digitalFlattenFolders p)"
proof -
  from assms(2) have "case digitalTargetFolder p of None \<Rightarrow> True | Some t \<Rightarrow> backslash_free t"
    by (simp add: backslash_free_target_def)
  from spec_destination_posix_backslash_free [OF assms(1) this]
  show ?thesis
    by (simp add: key_is_replaced_destination spec_key_posix replace_backslashes_id)
qed

text \<open>
  On a POSIX host the separator is the slash, so the specification's last step changes
  nothing, while the code rewrites the backslash of a file name.
\<close>

theorem backslash_in_a_posix_file_name:
  "take 4 file_with_backslash = digitalSourceFolder bare_params \<and>
   Spaces_normalizeKeyPath posix file_with_backslash bare_params = ''a/b.txt'' \<and>
   Upload_normalizeKeyPath posix bare_this_params file_with_backslash = ''a/b.txt'' \<and>
   spec_normalizeKey posix file_with_backslash ''/src'' None False = ''a'' @ backslash # ''b.txt'' \<and>
   Spaces_normalizeKeyPath posix file_with_backslash bare_params \<noteq>
     spec_normalizeKey posix file_with_backslash (digitalSourceFolder bare_params)
       (digitalTargetFolder bare_params) (digitalFlattenFolders bare_params)"
  by code_simp

text \<open>
  Claim C1, as amended. On every host and for every file path, \<^verbatim>\<open>normalizeKeyPath\<close>
  computes the key by the specification's steps 1 to 4 (strip the source folder by its
  length, drop one leading separator, keep the relative path or the base name, join it
  under the target folder when one is set) and then replaces every backslash by a slash,
  whatever the separator of the host is. On a POSIX host, when neither the file path nor
  the target folder holds a backslash, that is the key of the specification's algorithm as
  it is written. For source folder \<^verbatim>\<open>/build/out\<close>, files \<^verbatim>\<open>/build/out/a.txt\<close> and
  \<^verbatim>\<open>/build/out/img/b.png\<close> and target folder \<^verbatim>\<open>release\<close>, the keys are
  \<^verbatim>\<open>release/a.txt\<close> and \<^verbatim>\<open>release/img/b.png\<close> without flattening, and
  \<^verbatim>\<open>release/a.txt\<close> and \<^verbatim>\<open>release/b.png\<close> with it. All of this holds for both
  uploaders.
\<close>

theorem key_by_the_algorithm:
  fixes p :: "'a Parameters_scheme" and u :: Upload_Parameters
  shows
  "Spaces_normalizeKeyPath P file p =
     replace_backslashes (spec_destination P file (digitalSourceFolder p)
       (digitalTargetFolder p) (digitalFlattenFolders p)) \<and>
   Upload_normalizeKeyPath P u file =
     replace_backslashes (spec_destination P file (digitalSourceFolder u)
       (digitalTargetFolder u) (digitalFlattenFolders u)) \<and>
   (backslash_free file \<and> backslash_free_target (digitalTargetFolder p) \<longrightarrow>
      Spaces_normalizeKeyPath posix file p =
        spec_normalizeKey posix file (digitalSourceFolder p) (digitalTargetFolder p)
          (digitalFlattenFolders p)) \<and>
   (backslash_free file \<and> backslash_free_target (digitalTargetFolder u) \<longrightarrow>
      Upload_normalizeKeyPath posix u file =
        spec_normalizeKey posix file (digitalSourceFolder u) (digitalTargetFolder u)
          (digitalFlattenFolders u)) \<and>
   map (\<lambda>f. Spaces_normalizeKeyPath posix f example_params)
     [''/build/out/a.txt'', ''/build/out/img/b.png''] =
     [''release/a.txt'', ''release/img/b.png''] \<and>
   map (\<lambda>f. Spaces_normalizeKeyPath posix f (example_params\<lparr>digitalFlattenFolders := True\<rparr>))
     [''/build/out/a.txt'', ''/build/out/img/b.png''] =
     [''release/a.txt'', ''release/b.png''] \<and>
   map (Upload_normalizeKeyPath posix example_this_params)
     [''/build/out/a.txt'', ''/build/out/img/b.png''] =
     [''release/a.txt'', ''release/img/b.png''] \<and>
   map (Upload_normalizeKeyPath posix (example_this_params\<lparr>digitalFlattenFolders := True\<rparr>))
     [''/build/out/a.txt'', ''/build/out/img/b.png''] =
     [''release/a.txt'', ''release/b.png'']"
  using key_posix_is_spec [of "file" p] key_posix_is_spec [of "file" u]
  by (simp add: Upload_key_eq key_is_replaced_destination [symmetric] example_keys
      example_keys_Upload [unfolded Upload_key_eq])

theorem key_by_the_algorithm_witness:
  "backslash_free ''/build/out/img/b.png'' \<and>
   backslash_free_target (digitalTargetFolder example_params) \<and>
   Spaces_normalizeKeyPath posix ''/build/out/img/b.png'' example_params =
     spec_normalizeKey posix ''/build/out/img/b.png'' ''/build/out'' (Some ''release'') False \<and>
   backslash_free_target (digitalTargetFolder example_this_params) \<and>
   Upload_normalizeKeyPath posix example_this_params ''/build/out/img/b.png'' =
     spec_normalizeKey posix ''/build/out/img/b.png'' ''/build/out'' (Some ''release'') False \<and>
   spec_normalizeKey posix ''/build/out/img/b.png'' ''/build/out'' (Some ''release'') False =
     ''release/img/b.png''"
proof -
  have a: "backslash_free ''/build/out/img/b.png''"
    by (simp add: backslash_free_def backslash_def)
  have b: "backslash_free_target (digitalTargetFolder example_params)"
    "backslash_free_target (digitalTargetFolder example_this_params)"
    by (simp_all add: backslash_free_target_def backslash_free_def backslash_def
        example_params_def example_this_params_def)
  have c: "digitalSourceFolder example_params = ''/build/out''"
    "digitalTargetFolder example_params = Some ''release''"
    "digitalFlattenFolders example_params = False"
    "digitalSourceFolder example_this_params = ''/build/out''"
    "digitalTargetFolder example_this_params = Some ''release''"
    "digitalFlattenFolders example_this_params = False"
    by (simp_all add: example_params_def example_this_params_def)
  have d: "spec_normalizeKey posix ''/build/out/img/b.png'' ''/build/out'' (Some ''release'') False =
     ''release/img/b.png''"
    by code_simp
  from key_by_the_algorithm [of posix "''/build/out/img/b.png''" example_params example_this_params]
    a b
  have "Spaces_normalizeKeyPath posix ''/build/out/img/b.png'' example_params =
          spec_normalizeKey posix ''/build/out/img/b.png'' ''/build/out'' (Some ''release'') False"
    "Upload_normalizeKeyPath posix example_this_params ''/build/out/img/b.png'' =
          spec_normalizeKey posix ''/build/out/img/b.png'' ''/build/out'' (Some ''release'') False"
    unfolding c by blast+
  with a b d show ?thesis by simp
qed

section \<open>The shape of a key\<close>

lemma key_is_replaced_targetPath:
  "Spaces_normalizeKeyPath P file p = replace_backslashes (targetPath_of P file p)"
  by (simp add: Spaces_normalizeKeyPath_def targetPath_of_def kept_part_def Let_def)

lemma leading_separator_replaced:
  "startsWith (replace_backslashes s) ''/'' \<longleftrightarrow> leading_separator s"
  by (cases s) (simp_all add: startsWith_def replace_backslashes_def leading_separator_def)







lemma key_no_leading_slash_untargeted:
  assumes "\<not> truthy (digitalTargetFolder p)" and "\<not> leading_separator (kept_part P file p)"
  shows "\<not> startsWith (Spaces_normalizeKeyPath P file p) ''/''"
  using assms
  by (simp add: key_is_replaced_targetPath leading_separator_replaced targetPath_of_def)




text \<open>
  On every host whose separator is the backslash, whatever the other members of its path
  module do: the file in the subfolder has the relative path \<^verbatim>\<open>img\<close>, a backslash,
  \<^verbatim>\<open>a.txt\<close>, and its key \<^verbatim>\<open>img/a.txt\<close> does not begin with a slash.
\<close>

lemma backslash_host_relative:
  assumes "sep P = backslash"
  shows "relativePath_of P windows_file (digitalSourceFolder windows_params) = ''a.txt''"
    and "relativePath_of P windows_nested_file (digitalSourceFolder windows_params) =
           ''img'' @ backslash # ''a.txt''"
  using assms
  by (simp_all add: relativePath_of_def windows_params_def windows_file_def
      windows_nested_file_def startsWith_def)

lemma backslash_host_no_leading_slash:
  assumes "sep P = backslash"
  shows "\<not> leading_separator (kept_part P windows_nested_file windows_params)"
    and "Spaces_normalizeKeyPath P windows_nested_file windows_params = ''img/a.txt''"
    and "\<not> startsWith (Spaces_normalizeKeyPath P windows_nested_file windows_params) ''/''"
proof -
  have p: "\<not> digitalFlattenFolders windows_params" "\<not> truthy (digitalTargetFolder windows_params)"
    by (simp_all add: windows_params_def truthy_def)
  show k: "\<not> leading_separator (kept_part P windows_nested_file windows_params)"
    using p backslash_host_relative(2) [OF assms]
    by (simp add: kept_part_def leading_separator_def backslash_def)
  show "Spaces_normalizeKeyPath P windows_nested_file windows_params = ''img/a.txt''"
    using p backslash_host_relative(2) [OF assms]
    by (simp add: key_is_replaced_targetPath targetPath_of_def kept_part_def
        replace_backslashes_def backslash_def)
  show "\<not> startsWith (Spaces_normalizeKeyPath P windows_nested_file windows_params) ''/''"
    using p(2) k by (rule key_no_leading_slash_untargeted)
qed

section \<open>Keys without flattening\<close>

lemma mixes_separators_Cons:
  "mixes_separators (a # r1) (b # r2) \<longleftrightarrow>
     (a = CHR ''/'' \<and> b = backslash) \<or> (a = backslash \<and> b = CHR ''/'') \<or> mixes_separators r1 r2"
  by (simp add: mixes_separators_def)

lemma replace_backslashes_inj:
  "replace_backslashes r1 = replace_backslashes r2 \<Longrightarrow> \<not> mixes_separators r1 r2 \<Longrightarrow> r1 = r2"
proof (induction r1 arbitrary: r2)
  case Nil
  then show ?case by (simp add: replace_backslashes_def)
next
  case (Cons a r1)
  from Cons.prems(1) obtain b r2' where r2: "r2 = b # r2'"
    by (cases r2) (simp_all add: replace_backslashes_def)
  from Cons.prems(1) r2
  have hd: "(if a = backslash then CHR ''/'' else a) = (if b = backslash then CHR ''/'' else b)"
    and tl: "replace_backslashes r1 = replace_backslashes r2'"
    by (simp_all add: replace_backslashes_def)
  from Cons.prems(2) r2 have nm: "\<not> (a = CHR ''/'' \<and> b = backslash)"
    "\<not> (a = backslash \<and> b = CHR ''/'')" "\<not> mixes_separators r1 r2'"
    by (simp_all add: mixes_separators_Cons)
  from hd nm(1,2) have "a = b" by (auto split: if_splits)
  moreover from Cons.IH [OF tl nm(3)] have "r1 = r2'" .
  ultimately show ?case using r2 by simp
qed

lemma replace_backslashes_inj_prefixed:
  assumes "replace_backslashes (lead @ r1) = replace_backslashes (lead @ r2)"
    and "\<not> mixes_separators r1 r2"
  shows "r1 = r2"
  using assms by (simp add: replace_backslashes_append replace_backslashes_inj)

text \<open>
  Two paths that are both free of slashes, as relative paths are on a host whose separator
  is the backslash, or both free of backslashes, as they commonly are on a POSIX host, do
  not mix their separators.
\<close>

lemma unmixed_when_free:
  "(CHR ''/'' \<notin> set r1 \<and> CHR ''/'' \<notin> set r2) \<or> (backslash \<notin> set r1 \<and> backslash \<notin> set r2) \<Longrightarrow>
     \<not> mixes_separators r1 r2"
  by (auto simp: mixes_separators_def list_ex_iff dest: set_zip_leftD set_zip_rightD)

lemma key_injective_untargeted:
  assumes "\<not> digitalFlattenFolders p" and "\<not> truthy (digitalTargetFolder p)"
    and "relativePath_of P file1 (digitalSourceFolder p) \<noteq>
         relativePath_of P file2 (digitalSourceFolder p)"
    and "\<not> mixes_separators (relativePath_of P file1 (digitalSourceFolder p))
           (relativePath_of P file2 (digitalSourceFolder p))"
  shows "Spaces_normalizeKeyPath P file1 p \<noteq> Spaces_normalizeKeyPath P file2 p"
  using assms replace_backslashes_inj
  by (auto simp: key_is_replaced_targetPath targetPath_of_def kept_part_def)

lemma key_injective_prefixed:
  assumes "\<not> digitalFlattenFolders p" and "digitalTargetFolder p = Some t" and "t \<noteq> []"
    and "join P t (relativePath_of P file1 (digitalSourceFolder p)) =
           lead @ relativePath_of P file1 (digitalSourceFolder p)"
    and "join P t (relativePath_of P file2 (digitalSourceFolder p)) =
           lead @ relativePath_of P file2 (digitalSourceFolder p)"
    and "relativePath_of P file1 (digitalSourceFolder p) \<noteq>
         relativePath_of P file2 (digitalSourceFolder p)"
    and "\<not> mixes_separators (relativePath_of P file1 (digitalSourceFolder p))
           (relativePath_of P file2 (digitalSourceFolder p))"
  shows "Spaces_normalizeKeyPath P file1 p \<noteq> Spaces_normalizeKeyPath P file2 p"
proof
  assume "Spaces_normalizeKeyPath P file1 p = Spaces_normalizeKeyPath P file2 p"
  with assms(1-5)
  have "replace_backslashes (lead @ relativePath_of P file1 (digitalSourceFolder p)) =
        replace_backslashes (lead @ relativePath_of P file2 (digitalSourceFolder p))"
    by (simp add: key_is_replaced_targetPath targetPath_of_def kept_part_def truthy_def)
  from replace_backslashes_inj_prefixed [OF this assms(7)] assms(6) show False by simp
qed

lemma key_injective_posix:
  assumes nf: "\<not> digitalFlattenFolders p"
    and n1: "normal_relative (relativePath_of posix file1 (digitalSourceFolder p))"
    and n2: "normal_relative (relativePath_of posix file2 (digitalSourceFolder p))"
    and ne: "relativePath_of posix file1 (digitalSourceFolder p) \<noteq>
         relativePath_of posix file2 (digitalSourceFolder p)"
    and nm: "\<not> mixes_separators (relativePath_of posix file1 (digitalSourceFolder p))
           (relativePath_of posix file2 (digitalSourceFolder p))"
  shows "Spaces_normalizeKeyPath posix file1 p \<noteq> Spaces_normalizeKeyPath posix file2 p"
proof (cases "truthy (digitalTargetFolder p)")
  case False
  from key_injective_untargeted [OF nf False ne nm] show ?thesis .
next
  case True
  then obtain t where t: "digitalTargetFolder p = Some t" "t \<noteq> []"
    by (auto simp: truthy_def split: option.splits)
  from posix_join_normal [OF t(2)] obtain lead
    where lead: "\<And>r. normal_relative r \<Longrightarrow> posix_join t r = lead @ r" by blast
  have "join posix t (relativePath_of posix file1 (digitalSourceFolder p)) =
          lead @ relativePath_of posix file1 (digitalSourceFolder p)"
    "join posix t (relativePath_of posix file2 (digitalSourceFolder p)) =
          lead @ relativePath_of posix file2 (digitalSourceFolder p)"
    using lead [OF n1] lead [OF n2] by (simp_all add: posix_fields)
  from key_injective_prefixed [OF nf t this ne nm] show ?thesis .
qed

text \<open>
  On a POSIX host a file whose name holds a backslash and a file in a subdirectory can
  have distinct relative paths and one key.
\<close>

theorem backslash_name_collides_with_nested_file:
  "\<not> digitalFlattenFolders bare_params \<and>
   take 4 file_with_backslash = digitalSourceFolder bare_params \<and>
   take 4 ''/src/a/b.txt'' = digitalSourceFolder bare_params \<and>
   file_with_backslash \<noteq> ''/src/a/b.txt'' \<and>
   relativePath_of posix file_with_backslash (digitalSourceFolder bare_params) \<noteq>
     relativePath_of posix ''/src/a/b.txt'' (digitalSourceFolder bare_params) \<and>
   Spaces_normalizeKeyPath posix file_with_backslash bare_params =
     Spaces_normalizeKeyPath posix ''/src/a/b.txt'' bare_params \<and>
   \<not> digitalFlattenFolders bare_this_params \<and>
   Upload_normalizeKeyPath posix bare_this_params file_with_backslash =
     Upload_normalizeKeyPath posix bare_this_params ''/src/a/b.txt''"
  by code_simp

text \<open>
  Claim C4, as amended. Without flattening, two files under the same source folder get
  distinct keys when their relative paths are distinct and do not mix their separators
  (at no position has one a slash where the other has a backslash), in these cases: on
  every host when no target folder is set; on every host when a target folder is set and
  \<^verbatim>\<open>path.join\<close> puts both relative paths unchanged behind one and the same prefix; and on
  a POSIX host, with or without a target folder, when both relative paths are in normal
  form (no empty, \<^verbatim>\<open>.\<close> or \<^verbatim>\<open>..\<close> segment, as file discovery yields them). This holds
  for both uploaders.
\<close>

theorem non_flatten_keys_distinct:
  fixes p :: "'a Parameters_scheme" and u :: Upload_Parameters
  shows
  "(\<not> digitalFlattenFolders p \<and> \<not> truthy (digitalTargetFolder p) \<and>
    relativePath_of P file1 (digitalSourceFolder p) \<noteq>
      relativePath_of P file2 (digitalSourceFolder p) \<and>
    \<not> mixes_separators (relativePath_of P file1 (digitalSourceFolder p))
        (relativePath_of P file2 (digitalSourceFolder p)) \<longrightarrow>
      Spaces_normalizeKeyPath P file1 p \<noteq> Spaces_normalizeKeyPath P file2 p) \<and>
   (\<not> digitalFlattenFolders p \<and> digitalTargetFolder p = Some t \<and> t \<noteq> [] \<and>
    join P t (relativePath_of P file1 (digitalSourceFolder p)) =
      lead @ relativePath_of P file1 (digitalSourceFolder p) \<and>
    join P t (relativePath_of P file2 (digitalSourceFolder p)) =
      lead @ relativePath_of P file2 (digitalSourceFolder p) \<and>
    relativePath_of P file1 (digitalSourceFolder p) \<noteq>
      relativePath_of P file2 (digitalSourceFolder p) \<and>
    \<not> mixes_separators (relativePath_of P file1 (digitalSourceFolder p))
        (relativePath_of P file2 (digitalSourceFolder p)) \<longrightarrow>
      Spaces_normalizeKeyPath P file1 p \<noteq> Spaces_normalizeKeyPath P file2 p) \<and>
   (\<not> digitalFlattenFolders p \<and>
    normal_relative (relativePath_of posix file1 (digitalSourceFolder p)) \<and>
    normal_relative (relativePath_of posix file2 (digitalSourceFolder p)) \<and>
    relativePath_of posix file1 (digitalSourceFolder p) \<noteq>
      relativePath_of posix file2 (digitalSourceFolder p) \<and>
    \<not> mixes_separators (relativePath_of posix file1 (digitalSourceFolder p))
        (relativePath_of posix file2 (digitalSourceFolder p)) \<longrightarrow>
      Spaces_normalizeKeyPath posix file1 p \<noteq> Spaces_normalizeKeyPath posix file2 p) \<and>
   (\<not> digitalFlattenFolders u \<and> \<not> truthy (digitalTargetFolder u) \<and>
    relativePath_of P file1 (digitalSourceFolder u) \<noteq>
      relativePath_of P file2 (digitalSourceFolder u) \<and>
    \<not> mixes_separators (relativePath_of P file1 (digitalSourceFolder u))
        (relativePath_of P file2 (digitalSourceFolder u)) \<longrightarrow>
      Upload_normalizeKeyPath P u file1 \<noteq> Upload_normalizeKeyPath P u file2) \<and>
   (\<not> digitalFlattenFolders u \<and> digitalTargetFolder u = Some t \<and> t \<noteq> [] \<and>
    join P t (relativePath_of P file1 (digitalSourceFolder u)) =
      lead @ relativePath_of P file1 (digitalSourceFolder u) \<and>
    join P t (relativePath_of P file2 (digitalSourceFolder u)) =
      lead @ relativePath_of P file2 (digitalSourceFolder u) \<and>
    relativePath_of P file1 (digitalSourceFolder u) \<noteq>
      relativePath_of P file2 (digitalSourceFolder u) \<and>
    \<not> mixes_separators (relativePath_of P file1 (digitalSourceFolder u))
        (relativePath_of P file2 (digitalSourceFolder u)) \<longrightarrow>
      Upload_normalizeKeyPath P u file1 \<noteq> Upload_normalizeKeyPath P u file2) \<and>
   (\<not> digitalFlattenFolders u \<and>
    normal_relative (relativePath_of posix file1 (digitalSourceFolder u)) \<and>
    normal_relative (relativePath_of posix file2 (digitalSourceFolder u)) \<and>
    relativePath_of posix file1 (digitalSourceFolder u) \<noteq>
      relativePath_of posix file2 (digitalSourceFolder u) \<and>
    \<not> mixes_separators (relativePath_of posix file1 (digitalSourceFolder u))
        (relativePath_of posix file2 (digitalSourceFolder u)) \<longrightarrow>
      Upload_normalizeKeyPath posix u file1 \<noteq> Upload_normalizeKeyPath posix u file2)"
proof (intro conjI impI; elim conjE)
  show "Spaces_normalizeKeyPath P file1 q \<noteq> Spaces_normalizeKeyPath P file2 q"
    if "\<not> digitalFlattenFolders q" "\<not> truthy (digitalTargetFolder q)"
      "relativePath_of P file1 (digitalSourceFolder q) \<noteq>
        relativePath_of P file2 (digitalSourceFolder q)"
      "\<not> mixes_separators (relativePath_of P file1 (digitalSourceFolder q))
        (relativePath_of P file2 (digitalSourceFolder q))"
    for q :: "'b Parameters_scheme"
    using that by (rule key_injective_untargeted)
  then show "Upload_normalizeKeyPath P u file1 \<noteq> Upload_normalizeKeyPath P u file2"
    if "\<not> digitalFlattenFolders u" "\<not> truthy (digitalTargetFolder u)"
      "relativePath_of P file1 (digitalSourceFolder u) \<noteq>
        relativePath_of P file2 (digitalSourceFolder u)"
      "\<not> mixes_separators (relativePath_of P file1 (digitalSourceFolder u))
        (relativePath_of P file2 (digitalSourceFolder u))"
    using that by (simp add: Upload_key_eq)
  show "Spaces_normalizeKeyPath P file1 q \<noteq> Spaces_normalizeKeyPath P file2 q"
    if "\<not> digitalFlattenFolders q" "digitalTargetFolder q = Some t" "t \<noteq> []"
      "join P t (relativePath_of P file1 (digitalSourceFolder q)) =
        lead @ relativePath_of P file1 (digitalSourceFolder q)"
      "join P t (relativePath_of P file2 (digitalSourceFolder q)) =
        lead @ relativePath_of P file2 (digitalSourceFolder q)"
      "relativePath_of P file1 (digitalSourceFolder q) \<noteq>
        relativePath_of P file2 (digitalSourceFolder q)"
      "\<not> mixes_separators (relativePath_of P file1 (digitalSourceFolder q))
        (relativePath_of P file2 (digitalSourceFolder q))"
    for q :: "'b Parameters_scheme"
    using that by (rule key_injective_prefixed)
  then show "Upload_normalizeKeyPath P u file1 \<noteq> Upload_normalizeKeyPath P u file2"
    if "\<not> digitalFlattenFolders u" "digitalTargetFolder u = Some t" "t \<noteq> []"
      "join P t (relativePath_of P file1 (digitalSourceFolder u)) =
        lead @ relativePath_of P file1 (digitalSourceFolder u)"
      "join P t (relativePath_of P file2 (digitalSourceFolder u)) =
        lead @ relativePath_of P file2 (digitalSourceFolder u)"
      "relativePath_of P file1 (digitalSourceFolder u) \<noteq>
        relativePath_of P file2 (digitalSourceFolder u)"
      "\<not> mixes_separators (relativePath_of P file1 (digitalSourceFolder u))
        (relativePath_of P file2 (digitalSourceFolder u))"
    using that by (simp add: Upload_key_eq)
  show "Spaces_normalizeKeyPath posix file1 q \<noteq> Spaces_normalizeKeyPath posix file2 q"
    if "\<not> digitalFlattenFolders q"
      "normal_relative (relativePath_of posix file1 (digitalSourceFolder q))"
      "normal_relative (relativePath_of posix file2 (digitalSourceFolder q))"
      "relativePath_of posix file1 (digitalSourceFolder q) \<noteq>
        relativePath_of posix file2 (digitalSourceFolder q)"
      "\<not> mixes_separators (relativePath_of posix file1 (digitalSourceFolder q))
        (relativePath_of posix file2 (digitalSourceFolder q))"
    for q :: "'b Parameters_scheme"
    using that by (rule key_injective_posix)
  then show "Upload_normalizeKeyPath posix u file1 \<noteq> Upload_normalizeKeyPath posix u file2"
    if "\<not> digitalFlattenFolders u"
      "normal_relative (relativePath_of posix file1 (digitalSourceFolder u))"
      "normal_relative (relativePath_of posix file2 (digitalSourceFolder u))"
      "relativePath_of posix file1 (digitalSourceFolder u) \<noteq>
        relativePath_of posix file2 (digitalSourceFolder u)"
      "\<not> mixes_separators (relativePath_of posix file1 (digitalSourceFolder u))
        (relativePath_of posix file2 (digitalSourceFolder u))"
    using that by (simp add: Upload_key_eq)
qed

theorem non_flatten_keys_distinct_witness:
  "\<not> digitalFlattenFolders bare_params \<and> \<not> truthy (digitalTargetFolder bare_params) \<and>
   relativePath_of posix ''/src/a.txt'' (digitalSourceFolder bare_params) \<noteq>
     relativePath_of posix ''/src/b/a.txt'' (digitalSourceFolder bare_params) \<and>
   \<not> mixes_separators (relativePath_of posix ''/src/a.txt'' (digitalSourceFolder bare_params))
       (relativePath_of posix ''/src/b/a.txt'' (digitalSourceFolder bare_params)) \<and>
   Spaces_normalizeKeyPath posix ''/src/a.txt'' bare_params \<noteq>
     Spaces_normalizeKeyPath posix ''/src/b/a.txt'' bare_params \<and>
   \<not> digitalFlattenFolders example_params \<and>
   digitalTargetFolder example_params = Some ''release'' \<and> ''release'' \<noteq> [] \<and>
   join posix ''release'' (relativePath_of posix ''/build/out/a.txt''
     (digitalSourceFolder example_params)) =
     ''release/'' @ relativePath_of posix ''/build/out/a.txt'' (digitalSourceFolder example_params) \<and>
   join posix ''release'' (relativePath_of posix ''/build/out/img/a.txt''
     (digitalSourceFolder example_params)) =
     ''release/'' @ relativePath_of posix ''/build/out/img/a.txt''
       (digitalSourceFolder example_params) \<and>
   normal_relative (relativePath_of posix ''/build/out/a.txt'' (digitalSourceFolder example_params)) \<and>
   normal_relative (relativePath_of posix ''/build/out/img/a.txt''
     (digitalSourceFolder example_params)) \<and>
   relativePath_of posix ''/build/out/a.txt'' (digitalSourceFolder example_params) \<noteq>
     relativePath_of posix ''/build/out/img/a.txt'' (digitalSourceFolder example_params) \<and>
   \<not> mixes_separators
       (relativePath_of posix ''/build/out/a.txt'' (digitalSourceFolder example_params))
       (relativePath_of posix ''/build/out/img/a.txt'' (digitalSourceFolder example_params)) \<and>
   Spaces_normalizeKeyPath posix ''/build/out/a.txt'' example_params \<noteq>
     Spaces_normalizeKeyPath posix ''/build/out/img/a.txt'' example_params \<and>
   \<not> digitalFlattenFolders bare_this_params \<and> \<not> truthy (digitalTargetFolder bare_this_params) \<and>
   Upload_normalizeKeyPath posix bare_this_params ''/src/a.txt'' \<noteq>
     Upload_normalizeKeyPath posix bare_this_params ''/src/b/a.txt'' \<and>
   \<not> digitalFlattenFolders example_this_params \<and>
   digitalTargetFolder example_this_params = Some ''release'' \<and>
   Upload_normalizeKeyPath posix example_this_params ''/build/out/a.txt'' \<noteq>
     Upload_normalizeKeyPath posix example_this_params ''/build/out/img/a.txt''"
proof -
  have src: "digitalSourceFolder bare_this_params = digitalSourceFolder bare_params"
    "digitalSourceFolder example_this_params = digitalSourceFolder example_params"
    by (simp_all add: bare_params_def bare_this_params_def example_params_def
        example_this_params_def)
  have a: "\<not> digitalFlattenFolders bare_params" "\<not> truthy (digitalTargetFolder bare_params)"
    "\<not> digitalFlattenFolders bare_this_params" "\<not> truthy (digitalTargetFolder bare_this_params)"
    "\<not> digitalFlattenFolders example_params" "\<not> digitalFlattenFolders example_this_params"
    "digitalTargetFolder example_params = Some ''release''"
    "digitalTargetFolder example_this_params = Some ''release''" "''release'' \<noteq> []"
    by (simp_all add: bare_params_def bare_this_params_def example_params_def
        example_this_params_def truthy_def)
  have b: "relativePath_of posix ''/src/a.txt'' (digitalSourceFolder bare_params) \<noteq>
     relativePath_of posix ''/src/b/a.txt'' (digitalSourceFolder bare_params)"
    "\<not> mixes_separators (relativePath_of posix ''/src/a.txt'' (digitalSourceFolder bare_params))
       (relativePath_of posix ''/src/b/a.txt'' (digitalSourceFolder bare_params))"
    by code_simp+
  have c: "join posix ''release'' (relativePath_of posix ''/build/out/a.txt''
       (digitalSourceFolder example_params)) =
     ''release/'' @ relativePath_of posix ''/build/out/a.txt'' (digitalSourceFolder example_params)"
    "join posix ''release'' (relativePath_of posix ''/build/out/img/a.txt''
       (digitalSourceFolder example_params)) =
     ''release/'' @ relativePath_of posix ''/build/out/img/a.txt''
       (digitalSourceFolder example_params)"
    by code_simp+
  have d: "normal_relative (relativePath_of posix ''/build/out/a.txt''
       (digitalSourceFolder example_params))"
    "normal_relative (relativePath_of posix ''/build/out/img/a.txt''
       (digitalSourceFolder example_params))"
    by code_simp+
  have e: "relativePath_of posix ''/build/out/a.txt'' (digitalSourceFolder example_params) \<noteq>
     relativePath_of posix ''/build/out/img/a.txt'' (digitalSourceFolder example_params)"
    "\<not> mixes_separators
       (relativePath_of posix ''/build/out/a.txt'' (digitalSourceFolder example_params))
       (relativePath_of posix ''/build/out/img/a.txt'' (digitalSourceFolder example_params))"
    by code_simp+
  from non_flatten_keys_distinct
    [of bare_params posix "''/src/a.txt''" "''/src/b/a.txt''" _ _ bare_this_params] a b
  have f: "Spaces_normalizeKeyPath posix ''/src/a.txt'' bare_params \<noteq>
     Spaces_normalizeKeyPath posix ''/src/b/a.txt'' bare_params"
    "Upload_normalizeKeyPath posix bare_this_params ''/src/a.txt'' \<noteq>
     Upload_normalizeKeyPath posix bare_this_params ''/src/b/a.txt''"
    unfolding src by blast+
  from non_flatten_keys_distinct
    [of example_params posix "''/build/out/a.txt''" "''/build/out/img/a.txt''" "''release''"
      "''release/''" example_this_params]
    a c d e
  have g: "Spaces_normalizeKeyPath posix ''/build/out/a.txt'' example_params \<noteq>
     Spaces_normalizeKeyPath posix ''/build/out/img/a.txt'' example_params"
    "Upload_normalizeKeyPath posix example_this_params ''/build/out/a.txt'' \<noteq>
     Upload_normalizeKeyPath posix example_this_params ''/build/out/img/a.txt''"
    unfolding src by blast+
  from a b c d e f g show ?thesis by blast
qed

text \<open>
  On every host whose separator is the backslash, whatever the other members of its path
  module do: the file in the source folder and the file of the same name in the subfolder
  have relative paths that do not mix their separators, and distinct keys.
\<close>

lemma backslash_host_distinct_keys:
  assumes "sep P = backslash"
  shows "\<not> mixes_separators (relativePath_of P windows_file (digitalSourceFolder windows_params))
           (relativePath_of P windows_nested_file (digitalSourceFolder windows_params))"
    and "Spaces_normalizeKeyPath P windows_file windows_params \<noteq>
         Spaces_normalizeKeyPath P windows_nested_file windows_params"
proof -
  have p: "\<not> digitalFlattenFolders windows_params" "\<not> truthy (digitalTargetFolder windows_params)"
    by (simp_all add: windows_params_def truthy_def)
  have ne: "relativePath_of P windows_file (digitalSourceFolder windows_params) \<noteq>
        relativePath_of P windows_nested_file (digitalSourceFolder windows_params)"
    by (simp add: backslash_host_relative [OF assms])
  show nm: "\<not> mixes_separators (relativePath_of P windows_file (digitalSourceFolder windows_params))
           (relativePath_of P windows_nested_file (digitalSourceFolder windows_params))"
    by (simp add: backslash_host_relative [OF assms] mixes_separators_def backslash_def)
  show "Spaces_normalizeKeyPath P windows_file windows_params \<noteq>
         Spaces_normalizeKeyPath P windows_nested_file windows_params"
    using p ne nm by (rule key_injective_untargeted)
qed

end
